theory Spec2Isabelle
  imports Complex_Main
begin

section \<open>The multiplayer hook \<open>useMultiplayerGame\<close>\<close>

text \<open>
  The hook keeps one session under the realtime-database path \<open>games/gameId\<close>.
  The database is a map from game ids to game records; a record that is not there is
  \<open>None\<close>. Every field of a stored record is optional, because \<open>update\<close> merges the
  given fields into whatever is stored and creates the record when it is absent.
  JavaScript numbers are idealised as real numbers (no NaN, no infinity) and
  \<open>Date.now()\<close> is an explicit argument in milliseconds.
\<close>

type_synonym millis = nat

record player =
  player_id :: "string option"
  player_name :: "string option"
  player_isHost :: "bool option"
  lastActive :: "millis option"
  isOnline :: "bool option"
  ready :: "bool option"

record db_piece =
  db_isPlaced :: "bool option"
  lastUpdatedBy :: "string option"

text \<open>
  A value stored under \<open>pieces\<close>: the record of a piece, or the number that
  \<open>syncPieceState\<close> stores there under the key \<open>lastUpdated\<close>.
\<close>

datatype db_value = Piece db_piece | Stamp real

record game =
  status :: "string option"
  startedAt :: "millis option"
  endedAt :: "millis option"
  winner :: "string option"
  timer :: "real option"
  progress :: "real option"
  difficulty :: "string option"
  totalPiecesPlaced :: "nat option"
  players :: "string \<rightharpoonup> player"
  pieces :: "(string \<times> db_value) list option"

text \<open>The hook's local \<open>gameState\<close>: the last snapshot of the record plus \<open>isPlaying\<close>.\<close>

record game_state = game +
  isPlaying :: bool

type_synonym database = "string \<rightharpoonup> game"

record hook =
  gameId :: "string option"
  userId :: "string option"
  isHost :: bool

datatype outcome = Done | Skipped | Failed string | Rejected

definition empty_player :: player where
  "empty_player = \<lparr>player_id = None, player_name = None, player_isHost = None,
     lastActive = None, isOnline = None, ready = None\<rparr>"

definition empty_game :: game where
  "empty_game = \<lparr>status = None, startedAt = None, endedAt = None, winner = None,
     timer = None, progress = None, difficulty = None, totalPiecesPlaced = None,
     players = Map.empty, pieces = None\<rparr>"

text \<open>JavaScript truthiness of an id: \<open>undefined\<close> and the empty string are falsy.\<close>

definition truthy :: "string option \<Rightarrow> bool" where
  "truthy s = (case s of None \<Rightarrow> False | Some t \<Rightarrow> t \<noteq> [])"

text \<open>The template literal of the path prints an absent id as the text \<open>undefined\<close>.\<close>

definition game_key :: "string option \<Rightarrow> string" where
  "game_key g = (case g of None \<Rightarrow> ''undefined'' | Some t \<Rightarrow> t)"

text \<open>\<open>update(ref(database, path), fields)\<close>: merge the fields into the stored record.\<close>

definition update_game :: "database \<Rightarrow> string \<Rightarrow> (game \<Rightarrow> game) \<Rightarrow> database" where
  "update_game db k f = db(k \<mapsto> f (case db k of None \<Rightarrow> empty_game | Some g \<Rightarrow> g))"

definition game_status :: "database \<Rightarrow> hook \<Rightarrow> string option" where
  "game_status db h = (case db (game_key (gameId h)) of None \<Rightarrow> None | Some g \<Rightarrow> status g)"

subsection \<open>Status writes: \<open>startGame\<close>, \<open>pauseGame\<close>, \<open>endGame\<close>\<close>

text \<open>
  Each operation takes \<open>net\<close>, whether the remote write is acknowledged; a refused write
  leaves the database as it was and the \<open>catch\<close> branch records the error message.
  \<open>pauseGame\<close> has neither a guard nor a \<open>try\<close>: a refused write rejects its promise.
\<close>

definition startGame :: "hook \<Rightarrow> millis \<Rightarrow> bool \<Rightarrow> database \<Rightarrow> outcome \<times> database" where
  "startGame h now net db =
     (if \<not> truthy (gameId h) \<or> \<not> isHost h then (Skipped, db)
      else if net then
        (Done, update_game db (game_key (gameId h))
           (\<lambda>g. g\<lparr>status := Some ''playing'', startedAt := Some now\<rparr>))
      else (Failed ''Failed to start game'', db))"

definition pauseGame :: "hook \<Rightarrow> bool \<Rightarrow> database \<Rightarrow> outcome \<times> database" where
  "pauseGame h net db =
     (if net then
        (Done, update_game db (game_key (gameId h)) (\<lambda>g. g\<lparr>status := Some ''waiting''\<rparr>))
      else (Rejected, db))"

definition endGame :: "hook \<Rightarrow> string option \<Rightarrow> millis \<Rightarrow> bool \<Rightarrow> database \<Rightarrow> outcome \<times> database" where
  "endGame h win now net db =
     (if \<not> truthy (gameId h) \<or> \<not> isHost h then (Skipped, db)
      else if net then
        (Done, update_game db (game_key (gameId h))
           (\<lambda>g. g\<lparr>status := Some ''completed'', endedAt := Some now, winner := win\<rparr>))
      else (Failed ''Failed to end game'', db))"

subsection \<open>Progress: \<open>updateProgress\<close> and the progress listener\<close>

text \<open>\<open>snapshot.val() || 0\<close>: an absent value (and the falsy number 0) reads as 0.\<close>

definition or_zero :: "real option \<Rightarrow> real" where
  "or_zero v = (case v of None \<Rightarrow> 0 | Some p \<Rightarrow> p)"

definition stored_progress :: "database \<Rightarrow> hook \<Rightarrow> real" where
  "stored_progress db h =
     or_zero (case db (game_key (gameId h)) of None \<Rightarrow> None | Some g \<Rightarrow> progress g)"

text \<open>
  \<open>updateProgress\<close> awaits twice: first the \<open>get\<close> of the stored progress, then, after
  the comparison, the \<open>update\<close>. Nothing ties the two together (there is no transaction),
  so steps of other calls can run between them. The model keeps the two halves apart.
  \<open>updateProgress_get\<close> is the call up to the value the \<open>get\<close> resolves with; the \<open>get\<close> is
  outside the \<open>try\<close>, so its failure rejects the call. \<open>updateProgress_update\<close> is the rest of
  the call, run with the value read earlier as \<open>currentProgress\<close>. \<open>get_ok\<close> and \<open>upd_ok\<close> say
  whether the two remote calls succeed.
\<close>

definition updateProgress_get :: "hook \<Rightarrow> bool \<Rightarrow> database \<Rightarrow> outcome + real" where
  "updateProgress_get h get_ok db =
     (if \<not> truthy (gameId h) then Inl Skipped
      else if \<not> get_ok then Inl Rejected
      else Inr (stored_progress db h))"

definition updateProgress_update ::
  "hook \<Rightarrow> real \<Rightarrow> real \<Rightarrow> bool \<Rightarrow> database \<Rightarrow> outcome \<times> database" where
  "updateProgress_update h newProgress currentProgress upd_ok db =
     (if newProgress \<le> currentProgress then (Skipped, db)
      else if upd_ok then
        (Done, update_game db (game_key (gameId h)) (\<lambda>g. g\<lparr>progress := Some newProgress\<rparr>))
      else (Failed ''Failed to update progress'', db))"

text \<open>
  Calls in flight are numbered. \<open>Get c p ok\<close> starts call \<open>c\<close> with the value \<open>p\<close> and
  serves its \<open>get\<close>; \<open>Update c ok\<close> resumes call \<open>c\<close> after its \<open>get\<close>. The state is the
  database and, for each call awaiting its second half, the new value and the value read.
\<close>

datatype progress_step = Get nat real bool | Update nat bool

type_synonym in_flight = "nat \<rightharpoonup> real \<times> real"

fun updateProgress_step ::
  "hook \<Rightarrow> progress_step \<Rightarrow> database \<times> in_flight \<Rightarrow> database \<times> in_flight" where
  "updateProgress_step h (Get c newProgress get_ok) (db, calls) =
     (case updateProgress_get h get_ok db of
        Inl out \<Rightarrow> (db, calls)
      | Inr currentProgress \<Rightarrow> (db, calls(c \<mapsto> (newProgress, currentProgress))))"
| "updateProgress_step h (Update c upd_ok) (db, calls) =
     (case calls c of
        None \<Rightarrow> (db, calls)
      | Some (newProgress, currentProgress) \<Rightarrow>
          (snd (updateProgress_update h newProgress currentProgress upd_ok db), calls(c := None)))"

fun updateProgress_run ::
  "hook \<Rightarrow> progress_step list \<Rightarrow> database \<times> in_flight \<Rightarrow> database \<times> in_flight" where
  "updateProgress_run h [] st = st"
| "updateProgress_run h (e # es) st = updateProgress_run h es (updateProgress_step h e st)"

text \<open>
  A call that runs alone: no other step falls between its \<open>get\<close> and its \<open>update\<close>. And a
  sequence of such calls, each with its value and the fate of its two remote calls.
\<close>

definition updateProgress_alone ::
  "hook \<Rightarrow> real \<Rightarrow> bool \<Rightarrow> bool \<Rightarrow> database \<Rightarrow> outcome \<times> database" where
  "updateProgress_alone h newProgress get_ok upd_ok db =
     (case updateProgress_get h get_ok db of
        Inl out \<Rightarrow> (out, db)
      | Inr currentProgress \<Rightarrow> updateProgress_update h newProgress currentProgress upd_ok db)"

fun updateProgress_alone_all ::
  "hook \<Rightarrow> (real \<times> bool \<times> bool) list \<Rightarrow> database \<Rightarrow> database" where
  "updateProgress_alone_all h [] db = db"
| "updateProgress_alone_all h ((p, g, u) # es) db =
     updateProgress_alone_all h es (snd (updateProgress_alone h p g u db))"

text \<open>
  The listener on the \<open>progress\<close> field of the game:
  \<open>setProgress(prev => newProgress > prev ? newProgress : prev)\<close>.
\<close>

definition progressListener :: "real option \<Rightarrow> real \<Rightarrow> real" where
  "progressListener snapshot prevProgress =
     (let newProgress = or_zero snapshot in
      if newProgress > prevProgress then newProgress else prevProgress)"

fun progressListener_all :: "real option list \<Rightarrow> real \<Rightarrow> real" where
  "progressListener_all [] prev = prev"
| "progressListener_all (s # ss) prev = progressListener_all ss (progressListener s prev)"

subsection \<open>Presence: joining, leaving, losing the connection\<close>

text \<open>
  The effect of the hook writes the player's record with \<open>set\<close> and registers, on the
  server, the update to apply when the connection drops. The payload of that update is
  the object literal \<open>{isOnline: false, lastActive: Date.now()}\<close>, evaluated when it is
  registered; the registration below is what the server keeps.
\<close>

record registration =
  reg_game :: string
  reg_user :: string
  reg_isOnline :: bool
  reg_lastActive :: millis

definition set_player :: "database \<Rightarrow> string \<Rightarrow> string \<Rightarrow> player \<Rightarrow> database" where
  "set_player db k u p = update_game db k (\<lambda>g. g\<lparr>players := (players g)(u \<mapsto> p)\<rparr>)"

definition update_player :: "database \<Rightarrow> string \<Rightarrow> string \<Rightarrow> (player \<Rightarrow> player) \<Rightarrow> database" where
  "update_player db k u f =
     update_game db k (\<lambda>g. g\<lparr>players :=
       (players g)(u \<mapsto> f (case players g u of None \<Rightarrow> empty_player | Some p \<Rightarrow> p))\<rparr>)"

text \<open>\<open>remove(userRef)\<close>: nothing to do when the game is absent.\<close>

definition remove_player :: "database \<Rightarrow> string \<Rightarrow> string \<Rightarrow> database" where
  "remove_player db k u =
     (case db k of None \<Rightarrow> db | Some g \<Rightarrow> db(k \<mapsto> g\<lparr>players := (players g)(u := None)\<rparr>))"

definition join :: "hook \<Rightarrow> string \<Rightarrow> millis \<Rightarrow> database \<Rightarrow> registration option \<times> database" where
  "join h name now db =
     (if \<not> truthy (gameId h) \<or> \<not> truthy (userId h) then (None, db)
      else
        (Some \<lparr>reg_game = game_key (gameId h), reg_user = game_key (userId h),
                reg_isOnline = False, reg_lastActive = now\<rparr>,
         set_player db (game_key (gameId h)) (game_key (userId h))
           \<lparr>player_id = userId h, player_name = Some name, player_isHost = Some (isHost h),
            lastActive = Some now, isOnline = Some True, ready = None\<rparr>))"

text \<open>The cleanup the effect returns; it exists only when the effect passed its guard.\<close>

definition leave :: "hook \<Rightarrow> database \<Rightarrow> database" where
  "leave h db =
     (if \<not> truthy (gameId h) \<or> \<not> truthy (userId h) then db
      else if isHost h then db(game_key (gameId h) := None)
      else remove_player db (game_key (gameId h)) (game_key (userId h)))"

text \<open>The connection drops at time \<open>now\<close>: the server applies the registered update.\<close>

definition disconnect :: "registration \<Rightarrow> millis \<Rightarrow> database \<Rightarrow> database" where
  "disconnect r now db =
     update_player db (reg_game r) (reg_user r)
       (\<lambda>p. p\<lparr>isOnline := Some (reg_isOnline r), lastActive := Some (reg_lastActive r)\<rparr>)"

definition player_of :: "database \<Rightarrow> string \<Rightarrow> string \<Rightarrow> player option" where
  "player_of db k u = (case db k of None \<Rightarrow> None | Some g \<Rightarrow> players g u)"

subsection \<open>Completion of the shared puzzle: \<open>checkGameCompletion\<close>\<close>

text \<open>
  \<open>syncPieceState\<close> replaces the \<open>pieces\<close> record by \<open>{...piecesData, lastUpdated: Date.now()}\<close>,
  and the listener on the game copies the stored record into the local \<open>gameState\<close>.
\<close>

definition syncPieceState ::
  "hook \<Rightarrow> (string \<times> db_piece) list \<Rightarrow> millis \<Rightarrow> bool \<Rightarrow> database \<Rightarrow> outcome \<times> database" where
  "syncPieceState h piecesData now net db =
     (if \<not> truthy (gameId h) \<or> \<not> isHost h then (Skipped, db)
      else if net then
        (Done, update_game db (game_key (gameId h))
           (\<lambda>g. g\<lparr>pieces := Some (map (\<lambda>(k, p). (k, Piece p)) piecesData
                                   @ [(''lastUpdated'', Stamp (real now))])\<rparr>))
      else (Failed ''Failed to sync pieces'', db))"

definition gameListener :: "game option \<Rightarrow> game_state \<Rightarrow> game_state" where
  "gameListener snapshot gs =
     (case snapshot of
        None \<Rightarrow> gs
      | Some data \<Rightarrow>
          \<lparr>status = status data, startedAt = startedAt data, endedAt = endedAt data,
           winner = winner data, timer = timer data, progress = progress data,
           difficulty = difficulty data,
           totalPiecesPlaced =
             Some (case totalPiecesPlaced data of None \<Rightarrow> 0 | Some n \<Rightarrow> n),
           players = players data, pieces = pieces data,
           isPlaying = (status data = Some ''playing'')\<rparr>)"

text \<open>
  \<open>gameState?.pieces\<close> is absent when the state or the field is; \<open>Object.values\<close> lists
  the stored values, and \<open>piece.isPlaced\<close> is truthy only for a piece record whose
  \<open>isPlaced\<close> is \<open>true\<close>: on a number the property is \<open>undefined\<close>.
\<close>

definition value_isPlaced :: "db_value \<Rightarrow> bool" where
  "value_isPlaced v = (case v of Piece p \<Rightarrow> db_isPlaced p = Some True | Stamp n \<Rightarrow> False)"

definition checkGameCompletion :: "game_state option \<Rightarrow> bool" where
  "checkGameCompletion gs =
     (case gs of None \<Rightarrow> False
      | Some s \<Rightarrow>
         (case pieces s of None \<Rightarrow> False
          | Some ps \<Rightarrow>
              (let allPieces = map snd ps in
               length allPieces > 0 \<and> list_all (\<lambda>piece. value_isPlaced piece) allPieces)))"

definition isGameComplete :: "game_state option \<Rightarrow> bool" where
  "isGameComplete gs = checkGameCompletion gs"

section \<open>The single-player component \<open>PuzzleGame\<close>\<close>

subsection \<open>Numbers, vectors and the difficulty table\<close>

text \<open>
  Coordinates and angles are JavaScript numbers, idealised as reals. The progress value is
  the quotient \<open>(newCount / totalPieces) * 100\<close>, which is \<open>Infinity\<close> when \<open>totalPieces\<close> is 0.
\<close>

datatype number = Num real | Infinity

record vec3 =
  vx :: real
  vy :: real
  vz :: real

definition distanceTo :: "vec3 \<Rightarrow> vec3 \<Rightarrow> real" where
  "distanceTo a b =
     (let dx = vx a - vx b; dy = vy a - vy b; dz = vz a - vz b
      in sqrt (dx * dx + dy * dy + dz * dz))"



record difficulty_setting =
  grid_x :: nat
  grid_y :: nat
  snapDistance :: real
  rotationEnabled :: bool

definition DIFFICULTY_SETTINGS :: "string \<rightharpoonup> difficulty_setting" where
  "DIFFICULTY_SETTINGS =
     [''easy'' \<mapsto> \<lparr>grid_x = 4, grid_y = 3, snapDistance = 0.4, rotationEnabled = False\<rparr>,
      ''medium'' \<mapsto> \<lparr>grid_x = 5, grid_y = 4, snapDistance = 0.3, rotationEnabled = True\<rparr>,
      ''hard'' \<mapsto> \<lparr>grid_x = 6, grid_y = 5, snapDistance = 0.2, rotationEnabled = True\<rparr>,
      ''expert'' \<mapsto> \<lparr>grid_x = 8, grid_y = 6, snapDistance = 0.15, rotationEnabled = True\<rparr>]"

subsection \<open>The snap test of \<open>handleMouseMove\<close> and \<open>handleMouseUp\<close>\<close>

text \<open>
  The remainder \<open>a % b\<close> of JavaScript truncates the quotient towards zero, so the result
  has the sign of \<open>a\<close>.
\<close>

definition js_rem :: "real \<Rightarrow> real \<Rightarrow> real" where
  "js_rem a b = a - b * of_int (if 0 \<le> a / b then \<lfloor>a / b\<rfloor> else \<lceil>a / b\<rceil>)"

definition rotationDiff :: "real \<Rightarrow> real" where
  "rotationDiff rz = \<bar>js_rem rz (pi * 2)\<bar>"

definition isNearCorrectPosition :: "real \<Rightarrow> bool" where
  "isNearCorrectPosition distance = (distance < 0.3)"

definition isNearCorrectRotation :: "real \<Rightarrow> bool" where
  "isNearCorrectRotation rz = (rotationDiff rz < 0.2 \<or> \<bar>rotationDiff rz - pi * 2\<bar> < 0.2)"

text \<open>
  The minimal angular distance between two angles modulo a full turn, as the
  specification words it; the theorems compare it with what the snap test computes.
\<close>

definition minimal_angular_distance :: "real \<Rightarrow> real \<Rightarrow> real" where
  "minimal_angular_distance a b =
     (let d = \<bar>a - b\<bar> - pi * 2 * of_int \<lfloor>\<bar>a - b\<bar> / (pi * 2)\<rfloor>
      in min d (pi * 2 - d))"

definition degrees :: "real \<Rightarrow> real" where
  "degrees d = d * pi / 180"

subsection \<open>Pieces and the state of the component\<close>

text \<open>
  A piece is a mesh: its position, its rotation about the z axis, the \<open>userData\<close> fields
  and the two shader uniforms the handlers write. The state holds the React state
  variables and the refs the handlers and effects read. The selected piece is an index
  into the list of pieces; an index outside the list stands for no piece.
\<close>

record piece =
  position :: vec3
  rotation_z :: real
  originalPosition :: vec3
  isPlaced :: bool
  selected :: real
  correctPosition :: real

datatype dval = DNum real | DStr string

record puzzle_game =
  pg_image :: "string option"
  pg_progress :: number
  completedPieces :: nat
  totalPieces :: nat
  timeElapsed :: nat
  isTimerRunning :: bool
  pg_gameState :: string
  startTime :: "millis option"
  pg_difficulty :: dval
  pg_gameId :: "string option"
  currentUser :: bool
  scene :: bool
  puzzlePieces :: "piece list"
  selectedPiece :: "nat option"
  isDragging :: bool
  offset :: vec3
  initialRotation :: real
  controlsEnabled :: bool



definition update_piece :: "nat \<Rightarrow> (piece \<Rightarrow> piece) \<Rightarrow> puzzle_game \<Rightarrow> puzzle_game" where
  "update_piece i f s = s\<lparr>puzzlePieces := (puzzlePieces s)[i := f (puzzlePieces s ! i)]\<rparr>"



text \<open>
  \<open>handlePieceSnap\<close> animates the piece to its target for 0.3 seconds; the model keeps the
  last frame: the original position and the rotation \<open>Euler(0, 0, 0)\<close>.
\<close>

definition handlePieceSnap :: "piece \<Rightarrow> piece" where
  "handlePieceSnap q = q\<lparr>position := originalPosition q, rotation_z := 0\<rparr>"

definition release :: "puzzle_game \<Rightarrow> puzzle_game" where
  "release s = s\<lparr>selectedPiece := None, isDragging := False, controlsEnabled := True\<rparr>"

definition new_progress :: "nat \<Rightarrow> nat \<Rightarrow> number" where
  "new_progress newCount n =
     (if n = 0 then Infinity else Num ((real newCount / real n) * 100))"

definition handleMouseUp :: "puzzle_game \<Rightarrow> puzzle_game" where
  "handleMouseUp s =
     (case selectedPiece s of
        None \<Rightarrow> s
      | Some i \<Rightarrow>
          if length (puzzlePieces s) \<le> i then s
          else if pg_gameState s \<noteq> ''playing'' then
            release (update_piece i
              (\<lambda>q. q\<lparr>selected := 0.0, correctPosition := (if isPlaced q then 1.0 else 0.0),
                     position := (position q)\<lparr>vz := 0\<rparr>\<rparr>) s)
          else
            let p = puzzlePieces s ! i;
                distance = distanceTo (originalPosition p) (position p);
                near = (isNearCorrectPosition distance \<and> isNearCorrectRotation (rotation_z p));
                s1 = (if near then
                        (let s' = update_piece i handlePieceSnap s in
                         if \<not> isPlaced p then
                           (update_piece i (\<lambda>q. q\<lparr>isPlaced := True\<rparr>) s')
                             \<lparr>completedPieces := completedPieces s + 1,
                              pg_progress := new_progress (completedPieces s + 1) (totalPieces s)\<rparr>
                         else s')
                      else s);
                s2 = update_piece i
                       (\<lambda>q. q\<lparr>selected := 0.0,
                              correctPosition := (if isPlaced q then 1.0 else 0.0)\<rparr>) s1;
                s3 = update_piece i
                       (\<lambda>q. if \<not> isPlaced q then q\<lparr>position := (position q)\<lparr>vz := 0\<rparr>\<rparr> else q) s2
            in release s3)"







definition placed_at :: "puzzle_game \<Rightarrow> nat \<Rightarrow> bool" where
  "placed_at s i = (i < length (puzzlePieces s) \<and> isPlaced (puzzlePieces s ! i))"

subsection \<open>The two completion effects\<close>

text \<open>
  React runs an effect after the first render and after every render in which one of its
  dependencies differs from the render before. The effects are logged as the actions they
  start: stopping the timer, the import \<open>handlePuzzleCompletion\<close>, the record added by
  \<open>handlePuzzleCompletionCultural\<close>, a call of \<open>checkAchievements\<close>, the error logged by
  \<open>updateGameState\<close>, and the share prompt.

  The component's \<open>updateGameState\<close> returns at once when \<open>gameId\<close> is not set. Past that
  guard it evaluates \<open>ref(database, ...)\<close> inside its \<open>try\<close>; the component's module neither
  imports nor declares \<open>database\<close>, so the evaluation throws, the \<open>catch\<close> logs the error, and
  \<open>update\<close> is never called: the component writes nothing to the shared game. The two
  callers call it under \<open>if (gameId)\<close>. The state \<open>gameId\<close> itself starts as \<open>null\<close> and its
  setter is never called.
\<close>

datatype action =
  StopTimer | HandlePuzzleCompletion | AddCompletedPuzzle | CheckAchievements
  | LogUpdateError | ShowShareModal

definition updateGameState :: "puzzle_game \<Rightarrow> action list" where
  "updateGameState s = (if \<not> truthy (pg_gameId s) then [] else [LogUpdateError])"

definition updateGameState_completed :: "puzzle_game \<Rightarrow> action list" where
  "updateGameState_completed s = (if truthy (pg_gameId s) then updateGameState s else [])"

definition handlePuzzleCompletionCultural :: "puzzle_game \<Rightarrow> action list" where
  "handlePuzzleCompletionCultural s =
     (if \<not> currentUser s then [] else [CheckAchievements, AddCompletedPuzzle])"

definition synchronousCompletion :: "puzzle_game \<Rightarrow> action list" where
  "synchronousCompletion s =
     handlePuzzleCompletionCultural s @ [CheckAchievements]
       @ updateGameState_completed s @ [ShowShareModal]"

definition progress_effect :: "puzzle_game \<Rightarrow> action list" where
  "progress_effect s =
     (if pg_progress s = Num 100 then StopTimer # synchronousCompletion s else [])"

definition completion_effect :: "puzzle_game \<Rightarrow> action list" where
  "completion_effect s =
     (if pg_progress s = Num 100 \<and> currentUser s
      then [HandlePuzzleCompletion, CheckAchievements] @ updateGameState_completed s
      else [])"

definition completion_deps ::
  "puzzle_game \<Rightarrow> number \<times> millis option \<times> dval \<times> string option \<times> nat \<times> nat \<times> nat" where
  "completion_deps s =
     (pg_progress s, startTime s, pg_difficulty s, pg_image s, timeElapsed s, totalPieces s,
      completedPieces s)"

definition run_effects :: "puzzle_game option \<Rightarrow> puzzle_game \<Rightarrow> action list" where
  "run_effects prev cur =
     (case prev of
        None \<Rightarrow> progress_effect cur @ completion_effect cur
      | Some p \<Rightarrow>
          (if pg_progress p \<noteq> pg_progress cur then progress_effect cur else [])
          @ (if completion_deps p \<noteq> completion_deps cur then completion_effect cur else []))"

text \<open>The actions of a run of renders, the first of them the mount.\<close>

fun effects_log :: "puzzle_game option \<Rightarrow> puzzle_game list \<Rightarrow> action list" where
  "effects_log prev [] = []"
| "effects_log prev (s # ss) = run_effects prev s @ effects_log (Some s) ss"

section \<open>Invite links\<close>

text \<open>
  A JavaScript string is modelled as the list of its code points; a lone surrogate is a
  code point in the surrogate range. A call either returns a value or throws.
\<close>

type_synonym js_string = "nat list"

text \<open>The string written by an ASCII literal.\<close>

definition str :: "string \<Rightarrow> js_string" where
  "str s = map of_char s"

datatype js_error = TypeError | URIError

datatype 'a js_result = Returned 'a | Thrown js_error

subsection \<open>\<open>encodeURIComponent\<close> and \<open>decodeURIComponent\<close>\<close>

text \<open>
  The two functions follow the \<open>Encode\<close> and \<open>Decode\<close> operations of ECMA-262. \<open>Encode\<close>
  keeps the unreserved characters (letters, digits and \<open>- _ . ! ~ * ' ( )\<close>), writes every
  other code point as the escaped octets of its UTF-8 encoding, and throws a \<open>URIError\<close>
  at a lone surrogate.
\<close>

definition is_alpha :: "nat \<Rightarrow> bool" where
  "is_alpha c = ((65 \<le> c \<and> c \<le> 90) \<or> (97 \<le> c \<and> c \<le> 122))"

definition is_digit :: "nat \<Rightarrow> bool" where
  "is_digit c = (48 \<le> c \<and> c \<le> 57)"

definition uriUnreserved :: "nat \<Rightarrow> bool" where
  "uriUnreserved c = (is_alpha c \<or> is_digit c \<or> c \<in> set [45, 95, 46, 33, 126, 42, 39, 40, 41])"

definition is_surrogate :: "nat \<Rightarrow> bool" where
  "is_surrogate c = (55296 \<le> c \<and> c \<le> 57343)"

definition is_code_point :: "nat \<Rightarrow> bool" where
  "is_code_point c = (c \<le> 1114111 \<and> \<not> is_surrogate c)"

definition utf8_encode :: "nat \<Rightarrow> nat list" where
  "utf8_encode c =
     (if c < 128 then [c]
      else if c < 2048 then [192 + c div 64, 128 + c mod 64]
      else if c < 65536 then [224 + c div 4096, 128 + (c div 64) mod 64, 128 + c mod 64]
      else [240 + c div 262144, 128 + (c div 4096) mod 64, 128 + (c div 64) mod 64,
            128 + c mod 64])"

definition hex_digit :: "nat \<Rightarrow> nat" where
  "hex_digit d = (if d < 10 then 48 + d else 55 + d)"

definition percent_byte :: "nat \<Rightarrow> js_string" where
  "percent_byte b = [37, hex_digit (b div 16), hex_digit (b mod 16)]"

definition encode_code_point :: "nat \<Rightarrow> js_string" where
  "encode_code_point c =
     (if uriUnreserved c then [c] else concat (map percent_byte (utf8_encode c)))"

fun Encode :: "js_string \<Rightarrow> js_string js_result" where
  "Encode [] = Returned []"
| "Encode (c # cs) =
     (if \<not> is_code_point c then Thrown URIError
      else case Encode cs of
        Thrown e \<Rightarrow> Thrown e
      | Returned r \<Rightarrow> Returned (encode_code_point c @ r))"

definition encodeURIComponent :: "js_string \<Rightarrow> js_string js_result" where
  "encodeURIComponent s = Encode s"

text \<open>
  \<open>Decode\<close> copies every character but \<open>%\<close>. At a \<open>%\<close> it reads an escaped octet; an
  octet below 128 is the character itself, an octet with two to four leading one-bits
  starts a UTF-8 sequence whose other octets must follow as escapes, and the sequence must
  be the valid encoding of a code point. Everything else throws a \<open>URIError\<close>.
\<close>

definition hex_value :: "nat \<Rightarrow> nat option" where
  "hex_value c =
     (if 48 \<le> c \<and> c \<le> 57 then Some (c - 48)
      else if 65 \<le> c \<and> c \<le> 70 then Some (c - 55)
      else if 97 \<le> c \<and> c \<le> 102 then Some (c - 87)
      else None)"

fun parse_escape :: "js_string \<Rightarrow> (nat \<times> js_string) option" where
  "parse_escape (p # h1 # h2 # rest) =
     (if p = 37 then
        (case hex_value h1 of
           None \<Rightarrow> None
         | Some a \<Rightarrow> (case hex_value h2 of None \<Rightarrow> None | Some b \<Rightarrow> Some (a * 16 + b, rest)))
      else None)"
| "parse_escape _ = None"

fun parse_escapes :: "nat \<Rightarrow> js_string \<Rightarrow> (nat list \<times> js_string) option" where
  "parse_escapes 0 s = Some ([], s)"
| "parse_escapes (Suc n) s =
     (case parse_escape s of
        None \<Rightarrow> None
      | Some (b, rest) \<Rightarrow>
          (case parse_escapes n rest of
             None \<Rightarrow> None
           | Some (bs, rest') \<Rightarrow> Some (b # bs, rest')))"

definition leading_ones :: "nat \<Rightarrow> nat" where
  "leading_ones b =
     (if b < 128 then 0 else if b < 192 then 1 else if b < 224 then 2
      else if b < 240 then 3 else if b < 248 then 4 else 5)"

definition is_continuation :: "nat \<Rightarrow> bool" where
  "is_continuation b = (128 \<le> b \<and> b < 192)"

fun utf8_decode :: "nat list \<Rightarrow> nat option" where
  "utf8_decode [b0, b1] =
     (let v = (b0 - 192) * 64 + (b1 - 128)
      in if leading_ones b0 = 2 \<and> is_continuation b1 \<and> 128 \<le> v then Some v else None)"
| "utf8_decode [b0, b1, b2] =
     (let v = (b0 - 224) * 4096 + (b1 - 128) * 64 + (b2 - 128)
      in if leading_ones b0 = 3 \<and> is_continuation b1 \<and> is_continuation b2 \<and> 2048 \<le> v
            \<and> \<not> is_surrogate v
         then Some v else None)"
| "utf8_decode [b0, b1, b2, b3] =
     (let v = (b0 - 240) * 262144 + (b1 - 128) * 4096 + (b2 - 128) * 64 + (b3 - 128)
      in if leading_ones b0 = 4 \<and> is_continuation b1 \<and> is_continuation b2 \<and> is_continuation b3
            \<and> 65536 \<le> v \<and> v \<le> 1114111
         then Some v else None)"
| "utf8_decode _ = None"

function Decode :: "js_string \<Rightarrow> js_string js_result" where
  "Decode [] = Returned []"
| "Decode (c # cs) =
     (if c \<noteq> 37 then
        (case Decode cs of Thrown e \<Rightarrow> Thrown e | Returned r \<Rightarrow> Returned (c # r))
      else
        (case parse_escape (c # cs) of
           None \<Rightarrow> Thrown URIError
         | Some (b, rest) \<Rightarrow>
             (let n = leading_ones b in
              if n = 0 then
                (case Decode rest of Thrown e \<Rightarrow> Thrown e | Returned r \<Rightarrow> Returned (b # r))
              else if n = 1 \<or> n > 4 then Thrown URIError
              else
                (case parse_escapes (n - 1) rest of
                   None \<Rightarrow> Thrown URIError
                 | Some (bs, rest') \<Rightarrow>
                     (case utf8_decode (b # bs) of
                        None \<Rightarrow> Thrown URIError
                      | Some v \<Rightarrow>
                          (case Decode rest' of
                             Thrown e \<Rightarrow> Thrown e
                           | Returned r \<Rightarrow> Returned (v # r)))))))"
  by pat_completeness auto
termination
proof (relation "measure length")
  have pe: "length rest < length s" if "parse_escape s = Some (b, rest)" for s b rest
    using that by (induction s rule: parse_escape.induct) (auto split: if_splits option.splits)
  have pes: "length rest \<le> length s" if "parse_escapes n s = Some (bs, rest)" for n s bs rest
    using that
  proof (induction n arbitrary: s bs rest)
    case 0
    then show ?case by simp
  next
    case (Suc n)
    then show ?case
      by (auto split: option.splits prod.splits dest!: pe) fastforce
  qed
  show "wf (measure length)" by simp
  show "(cs, c # cs) \<in> measure length" for c :: nat and cs :: js_string by simp
  show "(y, c # cs) \<in> measure length"
    if "parse_escape (c # cs) = Some x2" "(x, y) = x2"
    for c :: nat and cs :: js_string and x2 x y
    using that pe [of "c # cs" x y] by simp
  show "(ya, c # cs) \<in> measure length"
    if "parse_escape (c # cs) = Some x2" "(x, y) = x2"
      "parse_escapes (xa - 1) y = Some x2a" "(xb, ya) = x2a"
    for c :: nat and cs :: js_string and x2 x y xa x2a xb ya
    using that pe [of "c # cs" x y] pes [of "xa - 1" y xb ya] by simp
qed

definition decodeURIComponent :: "js_string \<Rightarrow> js_string js_result" where
  "decodeURIComponent s = Decode s"

subsection \<open>The \<open>URL\<close> constructor\<close>

text \<open>
  \<open>new URL(link)\<close> is a function of the platform. The functions of the repository take it
  as a parameter, so that what is proved of them for every input holds for every parser.
  For the generated links a model of the parser of the URL standard is given, for
  absolute \<open>http\<close> and \<open>https\<close> links whose host is made of letters, digits, hyphens and dots
  with an optional port: leading and trailing spaces and control characters are cut, tabs
  and newlines removed, the scheme is read without regard to case, the slashes before the
  host are skipped, the path ends at \<open>?\<close> or \<open>#\<close>, is split at slashes and backslashes, its
  dot segments are resolved and its other segments percent-encoded. Any other input is
  reported as the \<open>TypeError\<close> of a failed parse.
\<close>

record url =
  protocol :: js_string
  host :: js_string
  pathname :: js_string

definition is_c0_or_space :: "nat \<Rightarrow> bool" where
  "is_c0_or_space c = (c \<le> 32)"

definition trim :: "js_string \<Rightarrow> js_string" where
  "trim s = rev (dropWhile is_c0_or_space (rev (dropWhile is_c0_or_space s)))"

definition is_tab_or_newline :: "nat \<Rightarrow> bool" where
  "is_tab_or_newline c = (c = 9 \<or> c = 10 \<or> c = 13)"

definition ascii_lower :: "nat \<Rightarrow> nat" where
  "ascii_lower c = (if 65 \<le> c \<and> c \<le> 90 then c + 32 else c)"

definition is_slash :: "nat \<Rightarrow> bool" where
  "is_slash c = (c = 47 \<or> c = 92)"

definition is_authority_end :: "nat \<Rightarrow> bool" where
  "is_authority_end c = (c = 47 \<or> c = 92 \<or> c = 63 \<or> c = 35)"

fun split_where :: "(nat \<Rightarrow> bool) \<Rightarrow> js_string \<Rightarrow> js_string list" where
  "split_where P [] = [Nil]"
| "split_where P (c # cs) =
     (if P c then [] # split_where P cs
      else (case split_where P cs of [] \<Rightarrow> [c # Nil] | w # ws \<Rightarrow> (c # w) # ws))"

definition split :: "nat \<Rightarrow> js_string \<Rightarrow> js_string list" where
  "split sep s = split_where (\<lambda>c. c = sep) s"

definition startsWith :: "js_string \<Rightarrow> js_string \<Rightarrow> bool" where
  "startsWith s prefix = (take (length prefix) s = prefix)"

definition in_path_percent_encode_set :: "nat \<Rightarrow> bool" where
  "in_path_percent_encode_set c =
     (c \<le> 31 \<or> 126 < c \<or> c \<in> set [32, 34, 35, 60, 62, 63, 94, 96, 123, 125])"

definition path_encode :: "nat \<Rightarrow> js_string" where
  "path_encode c =
     (if in_path_percent_encode_set c
      then concat (map percent_byte (utf8_encode (if is_surrogate c then 65533 else c)))
      else [c])"

definition single_dot :: "js_string \<Rightarrow> bool" where
  "single_dot seg = (map ascii_lower seg \<in> set [str ''.'', str ''%2e''])"

definition double_dot :: "js_string \<Rightarrow> bool" where
  "double_dot seg =
     (map ascii_lower seg \<in> set [str ''..'', str ''.%2e'', str ''%2e.'', str ''%2e%2e''])"

fun path_state :: "js_string list \<Rightarrow> js_string list \<Rightarrow> js_string list" where
  "path_state [] path = path"
| "path_state (seg # segs) path =
     (if double_dot seg then
        path_state segs (if segs = [] then butlast path @ [Nil] else butlast path)
      else if single_dot seg then
        path_state segs (if segs = [] then path @ [Nil] else path)
      else path_state segs (path @ [concat (map path_encode seg)]))"

definition is_host_char :: "nat \<Rightarrow> bool" where
  "is_host_char c = (is_alpha c \<or> is_digit c \<or> c = 45 \<or> c = 46)"

definition port_value :: "js_string \<Rightarrow> nat" where
  "port_value p = foldl (\<lambda>n c. n * 10 + (c - 48)) 0 p"

definition valid_authority :: "js_string \<Rightarrow> bool" where
  "valid_authority a =
     (let h = takeWhile (\<lambda>c. c \<noteq> 58) a; p = drop 1 (dropWhile (\<lambda>c. c \<noteq> 58) a)
      in h \<noteq> [] \<and> list_all is_host_char h \<and> list_all is_digit p \<and> port_value p \<le> 65535)"

definition new_URL :: "js_string \<Rightarrow> url js_result" where
  "new_URL input =
     (let s = filter (\<lambda>c. \<not> is_tab_or_newline c) (trim input);
          scheme = map ascii_lower (takeWhile (\<lambda>c. c \<noteq> 58) s);
          after = dropWhile (\<lambda>c. c \<noteq> 58) s
      in if after = [] \<or> scheme \<notin> set [str ''http'', str ''https''] then Thrown TypeError
         else
           let r = dropWhile is_slash (drop 1 after);
               authority = takeWhile (\<lambda>c. \<not> is_authority_end c) r;
               rest = dropWhile (\<lambda>c. \<not> is_authority_end c) r
           in if \<not> valid_authority authority then Thrown TypeError
              else
                let path_text = takeWhile (\<lambda>c. c \<noteq> 63 \<and> c \<noteq> 35) rest;
                    segs = split_where is_slash (drop 1 path_text)
                in Returned \<lparr>protocol = scheme @ [58], host = map ascii_lower authority,
                     pathname = concat (map (\<lambda>seg. 47 # seg) (path_state segs []))\<rparr>)"

subsection \<open>\<open>generateInviteLink\<close>, \<open>extractPuzzleId\<close> and \<open>isValidInviteLink\<close>\<close>

text \<open>
  \<open>baseUrl\<close> is \<open>window.location.origin\<close>. In \<open>extractPuzzleId\<close> every exception ends in the
  \<open>catch\<close> branch, which returns \<open>null\<close>, here \<open>None\<close>. The last element of an empty array
  would be \<open>undefined\<close>, which \<open>decodeURIComponent\<close> reads as the text \<open>undefined\<close>.
\<close>

definition generateInviteLink :: "js_string \<Rightarrow> js_string \<Rightarrow> js_string js_result" where
  "generateInviteLink baseUrl puzzleId =
     (case encodeURIComponent puzzleId of
        Thrown e \<Rightarrow> Thrown e
      | Returned inviteCode \<Rightarrow> Returned (baseUrl @ str ''/join/'' @ inviteCode))"

definition last_part :: "js_string list \<Rightarrow> js_string" where
  "last_part pathParts = (case rev pathParts of [] \<Rightarrow> str ''undefined'' | x # xs \<Rightarrow> x)"

definition extractPuzzleId ::
  "(js_string \<Rightarrow> url js_result) \<Rightarrow> js_string \<Rightarrow> js_string option js_result" where
  "extractPuzzleId URL inviteLink =
     (case URL inviteLink of
        Thrown err \<Rightarrow> Returned None
      | Returned url \<Rightarrow>
          (let pathParts = split 47 (pathname url);
               inviteCode = last_part pathParts
           in case decodeURIComponent inviteCode of
                Thrown err \<Rightarrow> Returned None
              | Returned puzzleId \<Rightarrow> Returned (Some puzzleId)))"

definition isValidInviteLink ::
  "(js_string \<Rightarrow> url js_result) \<Rightarrow> js_string \<Rightarrow> bool js_result" where
  "isValidInviteLink URL inviteLink =
     (case URL inviteLink of
        Thrown err \<Rightarrow> Returned False
      | Returned url \<Rightarrow>
          if startsWith (pathname url) (str ''/join/'') then
            (case extractPuzzleId URL inviteLink of
               Thrown err \<Rightarrow> Returned False
             | Returned r \<Rightarrow> Returned (r \<noteq> None))
          else Returned False)"

text \<open>An origin the parser model covers, and the characters \<open>Encode\<close> produces.\<close>

definition is_origin :: "js_string \<Rightarrow> bool" where
  "is_origin baseUrl =
     ((take 7 baseUrl = str ''http://'' \<and> valid_authority (drop 7 baseUrl))
      \<or> (take 8 baseUrl = str ''https://'' \<and> valid_authority (drop 8 baseUrl)))"


section \<open>Sample sessions\<close>

text \<open>Concrete hooks, databases, pieces and component states, used to run the model.\<close>

definition host1 :: hook where
  "host1 = \<lparr>gameId = Some ''g1'', userId = Some ''u1'', isHost = True\<rparr>"

definition guest2 :: hook where
  "guest2 = \<lparr>gameId = Some ''g1'', userId = Some ''u2'', isHost = False\<rparr>"

definition completed_db :: database where
  "completed_db = [''g1'' \<mapsto> empty_game\<lparr>status := Some ''completed''\<rparr>]"

definition lobby_db :: database where
  "lobby_db = [''g1'' \<mapsto> empty_game\<lparr>status := Some ''waiting''\<rparr>]"

definition ann_registration :: registration where
  "ann_registration =
     \<lparr>reg_game = ''g1'', reg_user = ''u2'', reg_isOnline = False, reg_lastActive = 1000\<rparr>"

definition placed_piece :: db_piece where
  "placed_piece = \<lparr>db_isPlaced = Some True, lastUpdatedBy = Some ''u1''\<rparr>"

definition solved_state :: game_state where
  "solved_state =
     \<lparr>status = Some ''playing'', startedAt = Some 5, endedAt = None, winner = None,
      timer = Some 60, progress = Some 100, difficulty = Some ''easy'',
      totalPiecesPlaced = Some 2, players = Map.empty,
      pieces = Some [(''p0'', Piece placed_piece), (''p1'', Piece placed_piece)],
      isPlaying = True\<rparr>"

definition origin3 :: vec3 where
  "origin3 = \<lparr>vx = 0, vy = 0, vz = 0\<rparr>"

definition far_rotated_piece :: piece where
  "far_rotated_piece =
     \<lparr>position = \<lparr>vx = 0.29, vy = 0, vz = 0\<rparr>, rotation_z = 1, originalPosition = origin3,
      isPlaced = False, selected = 1, correctPosition = 0\<rparr>"

definition unrotated_piece :: piece where
  "unrotated_piece =
     \<lparr>position = \<lparr>vx = 0.35, vy = 0, vz = 0\<rparr>, rotation_z = 0, originalPosition = origin3,
      isPlaced = False, selected = 1, correctPosition = 0\<rparr>"

definition near_piece :: piece where
  "near_piece =
     \<lparr>position = \<lparr>vx = 0.1, vy = 0, vz = 0\<rparr>, rotation_z = 0, originalPosition = origin3,
      isPlaced = False, selected = 1, correctPosition = 0\<rparr>"

definition dragging :: "piece \<Rightarrow> puzzle_game" where
  "dragging p =
     \<lparr>pg_image = Some ''elephant.png'', pg_progress = Num 0, completedPieces = 0,
      totalPieces = 12, timeElapsed = 30, isTimerRunning = True, pg_gameState = ''playing'',
      startTime = Some 0, pg_difficulty = DStr ''easy'', pg_gameId = None,
      currentUser = True, scene = True, puzzlePieces = [p], selectedPiece = Some 0,
      isDragging = True, offset = origin3, initialRotation = 0, controlsEnabled = False\<rparr>"

definition finished :: puzzle_game where
  "finished = (dragging near_piece)\<lparr>pg_progress := Num 100, completedPieces := 12\<rparr>"



section \<open>Properties of the multiplayer hook\<close>

subsection \<open>Stored progress\<close>

lemma stored_progress_update [simp]:
  "stored_progress (update_game db (game_key (gameId h)) (\<lambda>g. g\<lparr>progress := Some p\<rparr>)) h = p"
  by (simp add: stored_progress_def update_game_def or_zero_def)

lemma updateProgress_alone_cases:
  "snd (updateProgress_alone h p g u db) = db \<or>
   (stored_progress db h < p \<and> stored_progress (snd (updateProgress_alone h p g u db)) h = p)"
  by (simp add: updateProgress_alone_def updateProgress_get_def updateProgress_update_def)

lemma updateProgress_alone_mono:
  "stored_progress db h \<le> stored_progress (snd (updateProgress_alone h p g u db)) h"
  using updateProgress_alone_cases [of h p g u db] by auto

lemma updateProgress_alone_ok:
  "truthy (gameId h) \<Longrightarrow>
   stored_progress (snd (updateProgress_alone h p True True db)) h = max (stored_progress db h) p"
  by (simp add: updateProgress_alone_def updateProgress_get_def updateProgress_update_def max_def)

lemma updateProgress_alone_all_mono:
  "stored_progress db h \<le> stored_progress (updateProgress_alone_all h es db) h"
proof (induction es arbitrary: db)
  case Nil
  show ?case by simp
next
  case (Cons e es)
  obtain p g u where e: "e = (p, g, u)" by (cases e) auto
  have "stored_progress db h \<le> stored_progress (snd (updateProgress_alone h p g u db)) h"
    by (rule updateProgress_alone_mono)
  also have "\<dots> \<le> stored_progress
      (updateProgress_alone_all h es (snd (updateProgress_alone h p g u db))) h"
    by (rule Cons.IH)
  finally show ?case by (simp add: e)
qed

lemma updateProgress_alone_all_max:
  "truthy (gameId h) \<Longrightarrow> list_all (\<lambda>(p, g, u). g \<and> u) es \<Longrightarrow>
   stored_progress (updateProgress_alone_all h es db) h
     = Max (insert (stored_progress db h) (set (map fst es)))"
proof (induction es arbitrary: db)
  case Nil
  show ?case by simp
next
  case (Cons e es)
  obtain p g u where e: "e = (p, g, u)" by (cases e) auto
  from Cons.prems e have gu: "g" "u" and rest: "list_all (\<lambda>(p, g, u). g \<and> u) es" by auto
  let ?db = "snd (updateProgress_alone h p True True db)"
  have "stored_progress (updateProgress_alone_all h es ?db) h
      = Max (insert (stored_progress ?db h) (set (map fst es)))"
    by (rule Cons.IH [OF Cons.prems(1) rest])
  also have "stored_progress ?db h = max (stored_progress db h) p"
    by (rule updateProgress_alone_ok [OF Cons.prems(1)])
  also have "Max (insert (max (stored_progress db h) p) (set (map fst es)))
      = Max (insert (stored_progress db h) (set (map fst (e # es))))"
  proof (cases "set (map fst es) = {}")
    case True
    then show ?thesis by (simp add: e max.commute)
  next
    case False
    then show ?thesis by (simp add: e max.assoc max.commute max.left_commute)
  qed
  finally show ?case using gu by (simp add: e)
qed

text \<open>A call that runs alone is its two steps in a row.\<close>

lemma updateProgress_run_alone:
  "fst (updateProgress_run h [Get c p g, Update c u] (db, Map.empty))
     = snd (updateProgress_alone h p g u db)"
  by (simp add: updateProgress_alone_def split: sum.splits)

lemma progressListener_max: "progressListener s prev = max prev (or_zero s)"
  by (simp add: progressListener_def Let_def max_def)

lemma progressListener_all_max:
  "progressListener_all ss prev = Max (insert prev (set (map or_zero ss)))"
proof (induction ss arbitrary: prev)
  case Nil
  show ?case by simp
next
  case (Cons s ss)
  show ?case
  proof (cases "set (map or_zero ss) = {}")
    case True
    then show ?thesis by (simp add: Cons.IH progressListener_max max.commute)
  next
    case False
    then show ?thesis
      by (simp add: Cons.IH progressListener_max max.assoc max.commute max.left_commute)
  qed
qed

text \<open>
  Claim C2, at the input where the code departs from it. Two calls overlap on a game with
  no stored progress: the first, with the value 75, and the second, with the value 50,
  both have their \<open>get\<close> served and read 0; the first then writes 75; the second, which
  compares its 50 with the 0 it read, overwrites the stored 75 by 50. The incoming value
  is not greater than the stored one, and the stored progress decreases.
\<close>

theorem updateProgress_overlap_lowers_progress:
  "stored_progress lobby_db host1 = 0
   \<and> stored_progress (fst (updateProgress_run host1
        [Get 1 75 True, Get 2 50 True, Update 1 True] (lobby_db, Map.empty))) host1 = 75
   \<and> stored_progress (fst (updateProgress_run host1
        [Get 1 75 True, Get 2 50 True, Update 1 True, Update 2 True] (lobby_db, Map.empty)))
        host1 = 50"
  by (simp add: updateProgress_get_def updateProgress_update_def stored_progress_def
      or_zero_def update_game_def game_key_def truthy_def host1_def lobby_db_def empty_game_def)

text \<open>The same two calls one after the other leave 75 stored.\<close>

theorem updateProgress_overlap_lowers_progress_witness:
  "stored_progress (fst (updateProgress_run host1
        [Get 1 75 True, Get 2 50 True, Update 1 True, Update 2 True] (lobby_db, Map.empty)))
        host1
     < stored_progress (fst (updateProgress_run host1
        [Get 1 75 True, Get 2 50 True, Update 1 True] (lobby_db, Map.empty))) host1
   \<and> stored_progress (fst (updateProgress_run host1
        [Get 1 75 True, Update 1 True, Get 2 50 True, Update 2 True] (lobby_db, Map.empty)))
        host1 = 75"
proof -
  have "stored_progress (fst (updateProgress_run host1
        [Get 1 75 True, Update 1 True, Get 2 50 True, Update 2 True] (lobby_db, Map.empty)))
        host1 = 75"
    by (simp add: updateProgress_get_def updateProgress_update_def stored_progress_def
        or_zero_def update_game_def game_key_def truthy_def host1_def lobby_db_def
        empty_game_def)
  then show ?thesis using updateProgress_overlap_lowers_progress by simp
qed

text \<open>
  What does hold: calls that run alone, one after the other in any order, never lower the
  stored progress and, when the game id is set and every remote call succeeds, leave the
  maximum of the stored and the received values; the listener keeps the local progress
  at the maximum of its previous value and the values delivered.
\<close>

lemma updateProgress_alone_monotone_max:
  "snd (updateProgress_alone h p g u db) \<noteq> db \<Longrightarrow> stored_progress db h < p"
  "stored_progress db h \<le> stored_progress (updateProgress_alone_all h es db) h"
  "truthy (gameId h) \<Longrightarrow> list_all (\<lambda>(p, g, u). g \<and> u) es \<Longrightarrow>
     stored_progress (updateProgress_alone_all h es db) h
       = Max (insert (stored_progress db h) (set (map fst es)))"
  "progressListener_all ss prev = Max (insert prev (set (map or_zero ss)))"
  using updateProgress_alone_cases [of h p g u db]
  by (simp_all add: updateProgress_alone_all_mono updateProgress_alone_all_max
      progressListener_all_max)

subsection \<open>Status writes\<close>

lemma game_status_update [simp]:
  "game_status (update_game db (game_key (gameId h)) f) h
     = status (f (case db (game_key (gameId h)) of None \<Rightarrow> empty_game | Some g \<Rightarrow> g))"
  by (simp add: game_status_def update_game_def)

lemma startGame_status:
  "game_status (snd (startGame h now net db)) h
     = (if truthy (gameId h) \<and> isHost h \<and> net then Some ''playing'' else game_status db h)"
  by (simp add: startGame_def)

lemma endGame_status:
  "game_status (snd (endGame h w now net db)) h
     = (if truthy (gameId h) \<and> isHost h \<and> net then Some ''completed'' else game_status db h)"
  by (simp add: endGame_def)

text \<open>
  Claim C4, as the code has it. The hook writes the status without reading the stored
  one: \<open>startGame\<close> by the host of an identified game, with the write acknowledged, leaves
  the status \<open>playing\<close> and \<open>endGame\<close> leaves it \<open>completed\<close>, whatever the status was
  (\<open>completed\<close> included, so no status is terminal); called by a player who is not the
  host, without a game id, or with the write refused, either leaves the status as it was.
\<close>

theorem status_writes_unguarded:
  "game_status (snd (startGame h now net db)) h
     = (if truthy (gameId h) \<and> isHost h \<and> net then Some ''playing'' else game_status db h)
   \<and> game_status (snd (endGame h w now net db)) h
     = (if truthy (gameId h) \<and> isHost h \<and> net then Some ''completed'' else game_status db h)"
proof
  show "game_status (snd (startGame h now net db)) h
     = (if truthy (gameId h) \<and> isHost h \<and> net then Some ''playing'' else game_status db h)"
    by (rule startGame_status)
  show "game_status (snd (endGame h w now net db)) h
     = (if truthy (gameId h) \<and> isHost h \<and> net then Some ''completed'' else game_status db h)"
    by (rule endGame_status)
qed

text \<open>The host starts a game whose status is \<open>completed\<close>: the status becomes \<open>playing\<close>.\<close>

theorem completed_terminal_counterexample:
  "game_status completed_db host1 = Some ''completed''
   \<and> game_status (snd (startGame host1 5 True completed_db)) host1 = Some ''playing''"
  by (simp add: startGame_def host1_def truthy_def completed_db_def game_status_def
      update_game_def game_key_def empty_game_def)

text \<open>The host starts and ends the waiting game; a guest's \<open>startGame\<close> changes nothing.\<close>

theorem status_writes_unguarded_witness:
  "truthy (gameId host1) \<and> isHost host1
   \<and> game_status (snd (startGame host1 5 True lobby_db)) host1 = Some ''playing''
   \<and> game_status (snd (endGame host1 None 5 True lobby_db)) host1 = Some ''completed''
   \<and> game_status (snd (startGame guest2 5 True lobby_db)) guest2 = Some ''waiting''"
proof -
  have a: "truthy (gameId host1)" "isHost host1" "\<not> isHost guest2"
    by (simp_all add: host1_def guest2_def truthy_def)
  have b: "game_status lobby_db guest2 = Some ''waiting''"
    by (simp add: game_status_def lobby_db_def guest2_def game_key_def empty_game_def)
  from status_writes_unguarded [of host1 5 True lobby_db None]
    status_writes_unguarded [of guest2 5 True lobby_db None] a b
  show ?thesis by simp
qed

subsection \<open>Presence\<close>

lemma leave_host:
  "truthy (gameId h) \<Longrightarrow> truthy (userId h) \<Longrightarrow> isHost h \<Longrightarrow>
   leave h db = db(game_key (gameId h) := None)"
  by (simp add: leave_def)

lemma leave_guest:
  "truthy (gameId h) \<Longrightarrow> truthy (userId h) \<Longrightarrow> \<not> isHost h \<Longrightarrow>
   db (game_key (gameId h)) = Some g \<Longrightarrow>
   leave h db
     = db(game_key (gameId h) \<mapsto> g\<lparr>players := (players g)(game_key (userId h) := None)\<rparr>)"
  by (simp add: leave_def remove_player_def)

lemma disconnect_frame:
  "db (reg_game r) = Some g \<Longrightarrow>
   disconnect r now db = db(reg_game r \<mapsto> g\<lparr>players := (players g)(reg_user r \<mapsto>
      (case players g (reg_user r) of None \<Rightarrow> empty_player | Some p \<Rightarrow> p)
        \<lparr>isOnline := Some (reg_isOnline r), lastActive := Some (reg_lastActive r)\<rparr>)\<rparr>)"
  by (simp add: disconnect_def update_player_def update_game_def)

text \<open>
  Claim C6, at the input where the code departs from it. A guest joins at time 1000 and
  the connection drops at time 5000: the record is kept and marked offline, but its
  \<open>lastActive\<close> is 1000, the time at which the update was registered, not the time of the
  disconnection.
\<close>

theorem disconnect_lastActive_registration_time:
  "fst (join guest2 ''Ann'' 1000 lobby_db) = Some ann_registration
   \<and> map_option lastActive
       (player_of (disconnect ann_registration 5000 (snd (join guest2 ''Ann'' 1000 lobby_db)))
          ''g1'' ''u2'') = Some (Some 1000)
   \<and> map_option isOnline
       (player_of (disconnect ann_registration 5000 (snd (join guest2 ''Ann'' 1000 lobby_db)))
          ''g1'' ''u2'') = Some (Some False)"
  by (simp add: join_def guest2_def truthy_def game_key_def ann_registration_def disconnect_def
      update_player_def set_player_def update_game_def player_of_def lobby_db_def)

theorem disconnect_lastActive_registration_time_witness:
  "map_option lastActive
       (player_of (disconnect ann_registration 5000 (snd (join guest2 ''Ann'' 1000 lobby_db)))
          ''g1'' ''u2'') \<noteq> Some (Some 5000)"
  using disconnect_lastActive_registration_time by auto

subsection \<open>Completion of the shared puzzle\<close>

text \<open>
  On the values of the \<open>pieces\<close> record: the result is true exactly when the state has a
  \<open>pieces\<close> record that is not empty and every value in it is a piece with
  \<open>isPlaced = true\<close>; \<open>isGameComplete\<close> is the same value; with no state, no \<open>pieces\<close> record
  or an empty one the result is false.
\<close>

lemma checkGameCompletion_values:
  "checkGameCompletion gs \<longleftrightarrow>
      (\<exists>s ps. gs = Some s \<and> pieces s = Some ps \<and> ps \<noteq> []
         \<and> (\<forall>piece \<in> set (map snd ps). value_isPlaced piece))"
  by (auto simp: checkGameCompletion_def Let_def list_all_iff split: option.splits)

lemma isGameComplete_eq: "isGameComplete gs = checkGameCompletion gs"
  by (simp add: isGameComplete_def)

lemma checkGameCompletion_absent:
  "\<not> checkGameCompletion None"
  "\<not> checkGameCompletion (Some (s\<lparr>pieces := None\<rparr>))"
  "\<not> checkGameCompletion (Some (s\<lparr>pieces := Some []\<rparr>))"
  by (simp_all add: checkGameCompletion_def)

text \<open>A record that holds pieces only is complete exactly when it has a piece and all are placed.\<close>

lemma checkGameCompletion_pieces_only:
  "checkGameCompletion (Some (s\<lparr>pieces := Some (map (\<lambda>(k, p). (k, Piece p)) ps)\<rparr>)) \<longleftrightarrow>
     ps \<noteq> [] \<and> (\<forall>(k, p) \<in> set ps. db_isPlaced p = Some True)"
  by (auto simp: checkGameCompletion_def value_isPlaced_def Let_def list_all_iff)

text \<open>
  The number stored by \<open>syncPieceState\<close> is one of the values: once the host has synced the
  pieces, the copy of that record in \<open>gameState\<close> is not complete, whatever the pieces are.
\<close>

lemma checkGameCompletion_after_syncPieceState:
  assumes "truthy (gameId h)" "isHost h"
  shows "\<not> checkGameCompletion
           (Some (gameListener (snd (syncPieceState h ps now True db) (game_key (gameId h))) gs))"
  using assms
  by (simp add: syncPieceState_def update_game_def gameListener_def checkGameCompletion_def
      value_isPlaced_def Let_def)

text \<open>
  Claim C10, at the input where the code departs from it. The host syncs a set of two
  pieces, both with \<open>isPlaced = true\<close>, and the listener delivers the stored game. The
  \<open>pieces\<close> record is present and not empty and every piece in it is placed, yet
  \<open>checkGameCompletion\<close> and \<open>isGameComplete\<close> are false: \<open>syncPieceState\<close> stores the number
  \<open>lastUpdated\<close> beside the pieces, \<open>Object.values\<close> lists it with them, and it has no
  \<open>isPlaced\<close>.
\<close>

theorem checkGameCompletion_false_after_sync:
  "pieces (gameListener (snd (syncPieceState host1
       [(''p0'', placed_piece), (''p1'', placed_piece)] 1700 True lobby_db) ''g1'') solved_state)
     = Some [(''p0'', Piece placed_piece), (''p1'', Piece placed_piece),
             (''lastUpdated'', Stamp 1700)]
   \<and> db_isPlaced placed_piece = Some True
   \<and> checkGameCompletion (Some (gameListener (snd (syncPieceState host1
        [(''p0'', placed_piece), (''p1'', placed_piece)] 1700 True lobby_db) ''g1'')
        solved_state)) = False
   \<and> isGameComplete (Some (gameListener (snd (syncPieceState host1
        [(''p0'', placed_piece), (''p1'', placed_piece)] 1700 True lobby_db) ''g1'')
        solved_state)) = False"
  by (simp add: syncPieceState_def update_game_def gameListener_def checkGameCompletion_def
      isGameComplete_def value_isPlaced_def Let_def host1_def lobby_db_def truthy_def
      game_key_def placed_piece_def empty_game_def)

text \<open>
  The same two pieces stored without the number are complete; the sync turns a complete
  state into one that is not.
\<close>

theorem checkGameCompletion_false_after_sync_witness:
  "checkGameCompletion (Some solved_state)
   \<and> \<not> checkGameCompletion (Some (gameListener (snd (syncPieceState host1
        [(''p0'', placed_piece), (''p1'', placed_piece)] 1700 True lobby_db) ''g1'')
        solved_state))"
proof -
  have "checkGameCompletion (Some solved_state)"
    by (simp add: checkGameCompletion_def solved_state_def value_isPlaced_def placed_piece_def)
  then show ?thesis using checkGameCompletion_false_after_sync by simp
qed

section \<open>Properties of the component\<close>

subsection \<open>The rotation test\<close>

lemma two_pi_pos: "0 < pi * 2"
  by simp

lemma floor_rem_range:
  fixes x b :: real
  assumes "0 < b"
  shows "0 \<le> x - b * of_int \<lfloor>x / b\<rfloor>" and "x - b * of_int \<lfloor>x / b\<rfloor> < b"
proof -
  have "of_int \<lfloor>x / b\<rfloor> * b \<le> x" using assms by (rule floor_divide_lower)
  then show "0 \<le> x - b * of_int \<lfloor>x / b\<rfloor>" by (simp add: mult.commute)
  have "x < (of_int \<lfloor>x / b\<rfloor> + 1) * b" using assms by (rule floor_divide_upper)
  then show "x - b * of_int \<lfloor>x / b\<rfloor> < b" by (simp add: algebra_simps)
qed

lemma abs_js_rem:
  fixes a b :: real
  assumes b: "0 < b"
  shows "\<bar>js_rem a b\<bar> = \<bar>a\<bar> - b * of_int \<lfloor>\<bar>a\<bar> / b\<rfloor>"
proof (cases "0 \<le> a")
  case True
  then have q: "0 \<le> a / b" using b by simp
  have "js_rem a b = a - b * of_int \<lfloor>a / b\<rfloor>" using q by (simp add: js_rem_def)
  moreover have "0 \<le> a - b * of_int \<lfloor>a / b\<rfloor>" using b by (rule floor_rem_range)
  ultimately show ?thesis using True by simp
next
  case False
  then have neg: "a < 0" by simp
  then have q: "\<not> 0 \<le> a / b" using b by (simp add: divide_less_0_iff not_le)
  have c: "\<lceil>a / b\<rceil> = - \<lfloor>\<bar>a\<bar> / b\<rfloor>"
    using neg ceiling_minus [of "- a / b"] by simp
  have "js_rem a b = a - b * of_int \<lceil>a / b\<rceil>" using q by (simp add: js_rem_def)
  then have r: "js_rem a b = - (\<bar>a\<bar> - b * of_int \<lfloor>\<bar>a\<bar> / b\<rfloor>)"
    using neg c by simp
  have "0 \<le> \<bar>a\<bar> - b * of_int \<lfloor>\<bar>a\<bar> / b\<rfloor>" using b by (rule floor_rem_range)
  then show ?thesis using r by simp
qed

lemma rotationDiff_floor:
  "rotationDiff rz = \<bar>rz\<bar> - pi * 2 * of_int \<lfloor>\<bar>rz\<bar> / (pi * 2)\<rfloor>"
  unfolding rotationDiff_def by (rule abs_js_rem [OF two_pi_pos])

lemma rotationDiff_range: "0 \<le> rotationDiff rz" "rotationDiff rz < pi * 2"
  unfolding rotationDiff_floor using floor_rem_range [OF two_pi_pos, of "\<bar>rz\<bar>"] by simp_all

lemma rotationDiff_small: "0 \<le> rz \<Longrightarrow> rz < pi * 2 \<Longrightarrow> rotationDiff rz = rz"
proof -
  assume a: "0 \<le> rz" "rz < pi * 2"
  then have "\<lfloor>\<bar>rz\<bar> / (pi * 2)\<rfloor> = 0"
    by (simp add: floor_eq_iff)
  then show ?thesis using a by (simp add: rotationDiff_floor)
qed

lemma isNearCorrectRotation_iff:
  "isNearCorrectRotation rz \<longleftrightarrow> minimal_angular_distance rz 0 < 0.2"
proof -
  have d: "minimal_angular_distance rz 0 = min (rotationDiff rz) (pi * 2 - rotationDiff rz)"
    by (simp add: minimal_angular_distance_def rotationDiff_floor Let_def)
  have "\<bar>rotationDiff rz - pi * 2\<bar> = pi * 2 - rotationDiff rz"
    using rotationDiff_range(2) [of rz] by simp
  then show ?thesis unfolding isNearCorrectRotation_def d by (auto simp: min_def)
qed

lemma minimal_angular_distance_small:
  assumes "\<bar>a - b\<bar> < pi * 2"
  shows "minimal_angular_distance a b = min \<bar>a - b\<bar> (pi * 2 - \<bar>a - b\<bar>)"
proof -
  have "\<lfloor>\<bar>a - b\<bar> / (pi * 2)\<rfloor> = 0" using assms by (simp add: floor_eq_iff)
  then show ?thesis by (simp add: minimal_angular_distance_def Let_def)
qed

lemma isNearCorrectRotation_0: "isNearCorrectRotation 0"
  by (simp add: isNearCorrectRotation_def rotationDiff_small)

lemma isNearCorrectRotation_1: "\<not> isNearCorrectRotation 1"
proof -
  have "rotationDiff 1 = 1" using pi_ge_two by (intro rotationDiff_small) simp_all
  then show ?thesis using pi_ge_two by (simp add: isNearCorrectRotation_def)
qed

text \<open>
  Claim C7, as the code has it. The snap test takes no target rotation: \<open>rotationDiff\<close> is
  the absolute value of the rotation modulo a full turn, a number from 0 up to, not
  including, the full turn, and so is not itself a minimal distance. The test made of it,
  \<open>rotationDiff < 0.2 || |rotationDiff - 2\<pi>| < 0.2\<close>, holds exactly when the minimal angular
  distance between the rotation and the angle 0, modulo a full turn, is below 0.2 radians.
\<close>

theorem snap_rotation_test:
  "0 \<le> rotationDiff rz \<and> rotationDiff rz < pi * 2
   \<and> (isNearCorrectRotation rz \<longleftrightarrow> minimal_angular_distance rz 0 < 0.2)"
proof (intro conjI)
  show "0 \<le> rotationDiff rz" by (rule rotationDiff_range)
  show "rotationDiff rz < pi * 2" by (rule rotationDiff_range)
  show "isNearCorrectRotation rz \<longleftrightarrow> minimal_angular_distance rz 0 < 0.2"
    by (rule isNearCorrectRotation_iff)
qed

text \<open>
  At 359 degrees the computed difference is 359 degrees, while the minimal angular
  distance to a target of 1 degree is 2 degrees.
\<close>

theorem rotationDiff_wraparound_counterexample:
  "rotationDiff (degrees 359) = degrees 359
   \<and> minimal_angular_distance (degrees 359) (degrees 1) = degrees 2
   \<and> rotationDiff (degrees 359) \<noteq> minimal_angular_distance (degrees 359) (degrees 1)"
proof -
  have p: "0 < pi" by simp
  have r: "rotationDiff (degrees 359) = degrees 359"
    using p by (intro rotationDiff_small) (simp_all add: degrees_def)
  have e: "\<bar>degrees 359 - degrees 1\<bar> = degrees 358"
    using p by (simp add: degrees_def)
  have "minimal_angular_distance (degrees 359) (degrees 1)
      = min \<bar>degrees 359 - degrees 1\<bar> (pi * 2 - \<bar>degrees 359 - degrees 1\<bar>)"
    using p by (intro minimal_angular_distance_small) (simp_all add: degrees_def)
  also have "\<dots> = degrees 2" unfolding e using p by (simp add: degrees_def min_def)
  finally have m: "minimal_angular_distance (degrees 359) (degrees 1) = degrees 2" .
  have "degrees 359 \<noteq> degrees 2" using p by (simp add: degrees_def)
  with r m show ?thesis by simp
qed

text \<open>A piece turned to 359 degrees passes the test: it is 1 degree away from 0.\<close>

theorem snap_rotation_test_witness:
  "isNearCorrectRotation (degrees 359) \<and> minimal_angular_distance (degrees 359) 0 = degrees 1"
proof -
  have p: "0 < pi" by simp
  have "minimal_angular_distance (degrees 359) 0
      = min \<bar>degrees 359 - 0\<bar> (pi * 2 - \<bar>degrees 359 - 0\<bar>)"
    using p by (intro minimal_angular_distance_small) (simp_all add: degrees_def)
  also have "\<dots> = degrees 1" using p by (simp add: degrees_def min_def)
  finally have m: "minimal_angular_distance (degrees 359) 0 = degrees 1" .
  have "degrees 1 < 0.2" using pi_less_4 by (simp add: degrees_def)
  with m snap_rotation_test [of "degrees 359"] show ?thesis by simp
qed

subsection \<open>The snap decision at the end of a drag\<close>

lemma sqrt_less_iff_square:
  fixes q r :: real
  assumes "0 < r"
  shows "sqrt q < r \<longleftrightarrow> q < r * r"
proof -
  have "sqrt (r * r) = r" using assms by simp
  then show ?thesis using real_sqrt_less_iff [of q "r * r"] by simp
qed

lemma isNearCorrectPosition_distanceTo:
  "isNearCorrectPosition (distanceTo a b) \<longleftrightarrow>
     (vx a - vx b) * (vx a - vx b) + (vy a - vy b) * (vy a - vy b)
       + (vz a - vz b) * (vz a - vz b) < 0.3 * 0.3"
  unfolding isNearCorrectPosition_def distanceTo_def Let_def
  by (rule sqrt_less_iff_square) simp

lemma handleMouseUp_places_iff:
  assumes "selectedPiece s = Some i" "i < length (puzzlePieces s)" "pg_gameState s = ''playing''"
  shows "placed_at (handleMouseUp s) i \<longleftrightarrow>
           isPlaced (puzzlePieces s ! i)
           \<or> (isNearCorrectPosition
                 (distanceTo (originalPosition (puzzlePieces s ! i)) (position (puzzlePieces s ! i)))
               \<and> isNearCorrectRotation (rotation_z (puzzlePieces s ! i)))"
  using assms
  by (auto simp: handleMouseUp_def Let_def handlePieceSnap_def placed_at_def update_piece_def
      release_def)

text \<open>
  Claim C1, at the inputs where the code departs from it. The difficulty is \<open>easy\<close>, whose
  entry of \<open>DIFFICULTY_SETTINGS\<close> has \<open>snapDistance = 0.4\<close> and \<open>rotationEnabled = false\<close>.
  \<open>handleMouseUp\<close> reads no difficulty setting: a piece released at distance 0.29 from its
  target and turned by 1 radian is left unplaced by the rotation test, and an unrotated
  piece released at distance 0.35 is left unplaced by the fixed bound 0.3.
\<close>

theorem handleMouseUp_ignores_difficulty:
  "map_option rotationEnabled (DIFFICULTY_SETTINGS ''easy'') = Some False
   \<and> map_option snapDistance (DIFFICULTY_SETTINGS ''easy'') = Some 0.4
   \<and> pg_difficulty (dragging far_rotated_piece) = DStr ''easy''
   \<and> distanceTo (originalPosition far_rotated_piece) (position far_rotated_piece) = 0.29
   \<and> \<not> placed_at (handleMouseUp (dragging far_rotated_piece)) 0
   \<and> distanceTo (originalPosition unrotated_piece) (position unrotated_piece) = 0.35
   \<and> \<not> placed_at (handleMouseUp (dragging unrotated_piece)) 0"
proof -
  have q: "sqrt (841 / 10000) = 29 / 100"
    by (rule real_sqrt_unique) (simp_all add: power2_eq_square)
  have q': "sqrt (49 / 400) = 7 / 20"
    by (rule real_sqrt_unique) (simp_all add: power2_eq_square)
  have d: "distanceTo (originalPosition far_rotated_piece) (position far_rotated_piece) = 0.29"
    by (simp add: distanceTo_def far_rotated_piece_def origin3_def Let_def q)
  have d': "distanceTo (originalPosition unrotated_piece) (position unrotated_piece) = 0.35"
    by (simp add: distanceTo_def unrotated_piece_def origin3_def Let_def q')
  have s: "selectedPiece (dragging p) = Some 0" "0 < length (puzzlePieces (dragging p))"
    "pg_gameState (dragging p) = ''playing''" "puzzlePieces (dragging p) ! 0 = p" for p
    by (simp_all add: dragging_def)
  have r: "rotation_z far_rotated_piece = 1" "\<not> isPlaced far_rotated_piece"
    "\<not> isPlaced unrotated_piece"
    by (simp_all add: far_rotated_piece_def unrotated_piece_def)
  have a: "\<not> placed_at (handleMouseUp (dragging far_rotated_piece)) 0"
    unfolding handleMouseUp_places_iff [OF s(1) s(2) s(3)] s(4)
    using r isNearCorrectRotation_1 by simp
  have b: "\<not> placed_at (handleMouseUp (dragging unrotated_piece)) 0"
    unfolding handleMouseUp_places_iff [OF s(1) s(2) s(3)] s(4) d'
    using r by (simp add: isNearCorrectPosition_def)
  have c: "map_option rotationEnabled (DIFFICULTY_SETTINGS ''easy'') = Some False"
    "map_option snapDistance (DIFFICULTY_SETTINGS ''easy'') = Some 0.4"
    by (simp_all add: DIFFICULTY_SETTINGS_def)
  have e: "pg_difficulty (dragging far_rotated_piece) = DStr ''easy''"
    by (simp add: dragging_def)
  show ?thesis using a b c d d' e by simp
qed

text \<open>The same piece, unrotated and at distance 0.1, is placed.\<close>

theorem handleMouseUp_ignores_difficulty_witness:
  "placed_at (handleMouseUp (dragging far_rotated_piece)) 0 = False
   \<and> placed_at (handleMouseUp (dragging unrotated_piece)) 0 = False
   \<and> placed_at (handleMouseUp (dragging near_piece)) 0"
proof -
  have s: "selectedPiece (dragging near_piece) = Some 0"
    "0 < length (puzzlePieces (dragging near_piece))"
    "pg_gameState (dragging near_piece) = ''playing''"
    "puzzlePieces (dragging near_piece) ! 0 = near_piece"
    by (simp_all add: dragging_def)
  have "isNearCorrectPosition (distanceTo (originalPosition near_piece) (position near_piece))"
    unfolding isNearCorrectPosition_distanceTo by (simp add: near_piece_def origin3_def)
  moreover have "isNearCorrectRotation (rotation_z near_piece)"
    by (simp add: near_piece_def isNearCorrectRotation_0)
  ultimately have "placed_at (handleMouseUp (dragging near_piece)) 0"
    unfolding handleMouseUp_places_iff [OF s(1) s(2) s(3)] s(4) by simp
  then show ?thesis using handleMouseUp_ignores_difficulty by simp
qed

subsection \<open>The placed flag\<close>

lemma update_piece_length [simp]:
  "length (puzzlePieces (update_piece i f s)) = length (puzzlePieces s)"
  by (simp add: update_piece_def)


lemma placed_at_release [simp]: "placed_at (release s) j = placed_at s j"
  by (simp add: placed_at_def release_def)

lemma placed_at_fields [simp]:
  "placed_at (s\<lparr>completedPieces := c\<rparr>) j = placed_at s j"
  "placed_at (s\<lparr>pg_progress := pr\<rparr>) j = placed_at s j"
  "placed_at (s\<lparr>isDragging := d\<rparr>) j = placed_at s j"
  "placed_at (s\<lparr>selectedPiece := sp\<rparr>) j = placed_at s j"
  "placed_at (s\<lparr>controlsEnabled := ce\<rparr>) j = placed_at s j"
  "placed_at (s\<lparr>offset := off\<rparr>) j = placed_at s j"
  "placed_at (s\<lparr>initialRotation := ir\<rparr>) j = placed_at s j"
  by (simp_all add: placed_at_def)







lemma near_piece_placed: "placed_at (handleMouseUp (dragging near_piece)) 0"
proof -
  have s: "selectedPiece (dragging near_piece) = Some 0"
    "0 < length (puzzlePieces (dragging near_piece))"
    "pg_gameState (dragging near_piece) = ''playing''"
    "puzzlePieces (dragging near_piece) ! 0 = near_piece"
    by (simp_all add: dragging_def)
  have "isNearCorrectPosition (distanceTo (originalPosition near_piece) (position near_piece))"
    unfolding isNearCorrectPosition_distanceTo by (simp add: near_piece_def origin3_def)
  moreover have "isNearCorrectRotation (rotation_z near_piece)"
    by (simp add: near_piece_def isNearCorrectRotation_0)
  ultimately show ?thesis
    unfolding handleMouseUp_places_iff [OF s(1) s(2) s(3)] s(4) by simp
qed

lemma handleMouseUp_scene_image [simp]:
  "scene (handleMouseUp s) = scene s" "pg_image (handleMouseUp s) = pg_image s"
  by (simp_all add: handleMouseUp_def Let_def update_piece_def release_def split: option.splits)




subsection \<open>The completion effects\<close>

lemma run_effects_share:
  "count_list (run_effects (Some p) c) ShowShareModal
     = (if pg_progress p \<noteq> pg_progress c \<and> pg_progress c = Num 100 then 1 else 0)"
  by (auto simp: run_effects_def progress_effect_def completion_effect_def
      synchronousCompletion_def handlePuzzleCompletionCultural_def updateGameState_completed_def
      updateGameState_def)

lemma run_effects_handler:
  "count_list (run_effects (Some p) c) HandlePuzzleCompletion
     = (if completion_deps p \<noteq> completion_deps c \<and> pg_progress c = Num 100 \<and> currentUser c
        then 1 else 0)"
  by (auto simp: run_effects_def progress_effect_def completion_effect_def
      synchronousCompletion_def handlePuzzleCompletionCultural_def updateGameState_completed_def
      updateGameState_def)

lemma run_effects_same_deps:
  "completion_deps p = completion_deps c \<Longrightarrow> run_effects (Some p) c = []"
  by (simp add: run_effects_def completion_deps_def)

lemma completion_deps_update_piece [simp]:
  "completion_deps (update_piece i f s) = completion_deps s"
  by (simp add: completion_deps_def update_piece_def)

lemma completion_deps_release [simp]: "completion_deps (release s) = completion_deps s"
  by (simp add: completion_deps_def release_def)

lemma handleMouseUp_duplicate_deps:
  assumes "case selectedPiece s of None \<Rightarrow> True | Some i \<Rightarrow> placed_at s i"
  shows "completion_deps (handleMouseUp s) = completion_deps s"
  using assms
  by (auto simp: handleMouseUp_def Let_def placed_at_def split: option.splits)

text \<open>
  Claim C3, as the code has it. There is no one-shot guard. The render that follows a
  change of \<open>progress\<close> to exactly 100 starts \<open>synchronousCompletion\<close>, and with it the
  share prompt, once; a render in which \<open>progress\<close> did not change never starts it. The
  second effect calls \<open>handlePuzzleCompletion\<close> once at every render in which one of its
  seven dependencies changed while \<open>progress\<close> is 100 and a user is signed in. A render
  with all seven dependencies unchanged runs nothing, and a mouse-up on a piece that is
  already placed (a repeated drop) changes none of them.
\<close>

theorem completion_effects_rerun:
  "count_list (run_effects (Some p) c) ShowShareModal
     = (if pg_progress p \<noteq> pg_progress c \<and> pg_progress c = Num 100 then 1 else 0)
   \<and> count_list (run_effects (Some p) c) HandlePuzzleCompletion
     = (if completion_deps p \<noteq> completion_deps c \<and> pg_progress c = Num 100 \<and> currentUser c
        then 1 else 0)
   \<and> (completion_deps p = completion_deps c \<longrightarrow> run_effects (Some p) c = [])
   \<and> ((case selectedPiece s of None \<Rightarrow> True | Some i \<Rightarrow> placed_at s i)
        \<longrightarrow> run_effects (Some s) (handleMouseUp s) = [])"
proof (intro conjI impI)
  show "count_list (run_effects (Some p) c) ShowShareModal
     = (if pg_progress p \<noteq> pg_progress c \<and> pg_progress c = Num 100 then 1 else 0)"
    by (rule run_effects_share)
  show "count_list (run_effects (Some p) c) HandlePuzzleCompletion
     = (if completion_deps p \<noteq> completion_deps c \<and> pg_progress c = Num 100 \<and> currentUser c
        then 1 else 0)"
    by (rule run_effects_handler)
next
  assume "completion_deps p = completion_deps c"
  then show "run_effects (Some p) c = []" by (rule run_effects_same_deps)
next
  assume "case selectedPiece s of None \<Rightarrow> True | Some i \<Rightarrow> placed_at s i"
  then have "completion_deps (handleMouseUp s) = completion_deps s"
    by (rule handleMouseUp_duplicate_deps)
  then show "run_effects (Some s) (handleMouseUp s) = []"
    by (intro run_effects_same_deps) simp
qed

text \<open>
  The twelfth piece is placed by a signed-in user: at that one render the achievements are
  computed three times; when the user then picks another image, \<open>handlePuzzleCompletion\<close>
  runs a second time.
\<close>

theorem completion_once_counterexample:
  "count_list (effects_log None [dragging near_piece, finished]) CheckAchievements = 3
   \<and> count_list (effects_log None
        [dragging near_piece, finished, finished\<lparr>pg_image := Some ''pyramid.png''\<rparr>])
        HandlePuzzleCompletion = 2"
  by (simp add: run_effects_def progress_effect_def completion_effect_def
      synchronousCompletion_def handlePuzzleCompletionCultural_def updateGameState_completed_def
      updateGameState_def completion_deps_def finished_def dragging_def truthy_def)

text \<open>
  Reaching 100 shows the share prompt once; the drop of the placed piece repeated in the
  finished game runs nothing.
\<close>

theorem completion_effects_rerun_witness:
  "pg_progress (dragging near_piece) \<noteq> pg_progress finished
   \<and> count_list (run_effects (Some (dragging near_piece)) finished) ShowShareModal = 1
   \<and> count_list (run_effects (Some (dragging near_piece)) finished) HandlePuzzleCompletion = 1
   \<and> run_effects (Some finished) finished = []
   \<and> placed_at (handleMouseUp (dragging near_piece)) 0
   \<and> run_effects (Some (handleMouseUp (dragging near_piece)))
        (handleMouseUp ((handleMouseUp (dragging near_piece))\<lparr>selectedPiece := Some 0\<rparr>)) = []"
proof -
  have a: "pg_progress (dragging near_piece) \<noteq> pg_progress finished"
    "pg_progress finished = Num 100" "currentUser finished"
    "completion_deps (dragging near_piece) \<noteq> completion_deps finished"
    by (simp_all add: finished_def dragging_def completion_deps_def)
  let ?s = "(handleMouseUp (dragging near_piece))\<lparr>selectedPiece := Some 0\<rparr>"
  have b: "case selectedPiece ?s of None \<Rightarrow> True | Some i \<Rightarrow> placed_at ?s i"
    using near_piece_placed by simp
  have c: "run_effects (Some (handleMouseUp (dragging near_piece))) (handleMouseUp ?s)
     = run_effects (Some ?s) (handleMouseUp ?s)"
    by (simp add: run_effects_def completion_deps_def)
  from completion_effects_rerun [of "dragging near_piece" finished ?s]
    completion_effects_rerun [of finished finished ?s] a b c near_piece_placed
  show ?thesis by simp
qed

section \<open>Properties of the invite links\<close>

subsection \<open>Validation\<close>

lemmas char_defs = is_c0_or_space_def is_tab_or_newline_def ascii_lower_def is_slash_def
  is_authority_end_def in_path_percent_encode_set_def is_host_char_def is_alpha_def is_digit_def
  uriUnreserved_def is_surrogate_def is_code_point_def hex_digit_def hex_value_def
  leading_ones_def is_continuation_def

lemmas url_defs = new_URL_def trim_def str_def valid_authority_def port_value_def
  single_dot_def double_dot_def path_encode_def split_def startsWith_def last_part_def
  percent_byte_def utf8_encode_def encode_code_point_def encodeURIComponent_def
  decodeURIComponent_def generateInviteLink_def extractPuzzleId_def isValidInviteLink_def
  is_origin_def Let_def

lemma extractPuzzleId_returns: "\<exists>r. extractPuzzleId URL link = Returned r"
  by (simp add: extractPuzzleId_def Let_def split: js_result.splits)

lemma extractPuzzleId_malformed: "URL link = Thrown e \<Longrightarrow> extractPuzzleId URL link = Returned None"
  by (simp add: extractPuzzleId_def)

lemma isValidInviteLink_returns: "\<exists>b. isValidInviteLink URL link = Returned b"
  by (auto simp: isValidInviteLink_def split: js_result.splits)

lemma isValidInviteLink_iff:
  "isValidInviteLink URL link = Returned True \<longleftrightarrow>
     (\<exists>u i. URL link = Returned u \<and> startsWith (pathname u) (str ''/join/'')
        \<and> extractPuzzleId URL link = Returned (Some i))"
  by (auto simp: isValidInviteLink_def split: js_result.splits)

text \<open>The last element of a path split at the slashes is the text after its last slash.\<close>

lemma split_where_none: "\<forall>c \<in> set p. \<not> P c \<Longrightarrow> split_where P p = [p]"
  by (induction p) auto

lemma split_where_not_Nil: "split_where P s \<noteq> []"
  by (induction s) (auto split: list.splits)

lemma split_where_append:
  "P c \<Longrightarrow> split_where P (xs @ c # ys) = split_where P xs @ split_where P ys"
proof (induction xs)
  case Nil
  then show ?case by simp
next
  case (Cons x xs)
  then show ?case
    using split_where_not_Nil [of P xs] by (cases "split_where P xs") auto
qed

lemma last_part_split:
  assumes "47 \<notin> set seg" "pre = [] \<or> last pre = 47"
  shows "last_part (split 47 (pre @ seg)) = seg"
proof -
  have seg: "split_where (\<lambda>c. c = 47) seg = [seg]"
    using assms(1) by (intro split_where_none) auto
  show ?thesis
  proof (cases "pre = []")
    case True
    then show ?thesis by (simp add: split_def seg last_part_def)
  next
    case False
    then obtain b where b: "pre = b @ [47]"
      using assms(2) by (metis append_butlast_last_id)
    have "split_where (\<lambda>c. c = 47) (b @ 47 # seg)
        = split_where (\<lambda>c. c = 47) b @ split_where (\<lambda>c. c = 47) seg"
      by (rule split_where_append) simp
    then have "split_where (\<lambda>c. c = 47) (pre @ seg) = split_where (\<lambda>c. c = 47) b @ [seg]"
      by (simp add: b seg)
    then show ?thesis by (simp add: split_def last_part_def)
  qed
qed

lemma last_segment_exists:
  "\<exists>pre seg. (s :: js_string) = pre @ seg \<and> (pre = [] \<or> last pre = 47) \<and> 47 \<notin> set seg"
proof (induction s rule: rev_induct)
  case Nil
  then show ?case by simp
next
  case (snoc x xs)
  show ?case
  proof (cases "x = 47")
    case True
    have "xs @ [x] = (xs @ [x]) @ [] \<and> ((xs @ [x]) = [] \<or> last (xs @ [x]) = 47) \<and> 47 \<notin> set []"
      using True by simp
    then show ?thesis by blast
  next
    case False
    from snoc obtain pre seg where
      "xs = pre @ seg" "pre = [] \<or> last pre = 47" "47 \<notin> set seg" by blast
    then have "xs @ [x] = pre @ (seg @ [x]) \<and> (pre = [] \<or> last pre = 47) \<and> 47 \<notin> set (seg @ [x])"
      using False by simp
    then show ?thesis by blast
  qed
qed

lemma startsWith_iff: "startsWith s p \<longleftrightarrow> (\<exists>rest. s = p @ rest)"
  unfolding startsWith_def
  by (metis append_eq_conv_conj append_take_drop_id)

lemma join_prefix_last: "pre = [] \<or> last pre = 47 \<Longrightarrow>
   str ''/join/'' @ pre = [] \<or> last (str ''/join/'' @ pre) = 47"
  by (auto simp: str_def)

lemma extractPuzzleId_iff:
  "extractPuzzleId URL link = Returned (Some i) \<longleftrightarrow>
     (\<exists>u pre seg. URL link = Returned u \<and> pathname u = pre @ seg
        \<and> (pre = [] \<or> last pre = 47) \<and> 47 \<notin> set seg
        \<and> decodeURIComponent seg = Returned i)"
proof
  assume a: "extractPuzzleId URL link = Returned (Some i)"
  then obtain u where u: "URL link = Returned u"
    by (cases "URL link") (auto simp: extractPuzzleId_def)
  obtain pre seg where d: "pathname u = pre @ seg" "pre = [] \<or> last pre = 47" "47 \<notin> set seg"
    using last_segment_exists by blast
  have "last_part (split 47 (pathname u)) = seg"
    unfolding d(1) by (rule last_part_split [OF d(3) d(2)])
  with a u have "decodeURIComponent seg = Returned i"
    by (auto simp: extractPuzzleId_def Let_def split: js_result.splits)
  with u d show "\<exists>u pre seg. URL link = Returned u \<and> pathname u = pre @ seg
        \<and> (pre = [] \<or> last pre = 47) \<and> 47 \<notin> set seg
        \<and> decodeURIComponent seg = Returned i" by blast
next
  assume "\<exists>u pre seg. URL link = Returned u \<and> pathname u = pre @ seg
        \<and> (pre = [] \<or> last pre = 47) \<and> 47 \<notin> set seg
        \<and> decodeURIComponent seg = Returned i"
  then obtain u pre seg where u: "URL link = Returned u" and d: "pathname u = pre @ seg"
    "pre = [] \<or> last pre = 47" "47 \<notin> set seg" and i: "decodeURIComponent seg = Returned i"
    by blast
  have "last_part (split 47 (pathname u)) = seg"
    unfolding d(1) by (rule last_part_split [OF d(3) d(2)])
  with u i show "extractPuzzleId URL link = Returned (Some i)"
    by (simp add: extractPuzzleId_def Let_def)
qed

lemma isValidInviteLink_path:
  "isValidInviteLink URL link = Returned True \<longleftrightarrow>
     (\<exists>u pre seg i. URL link = Returned u \<and> pathname u = str ''/join/'' @ pre @ seg
        \<and> (pre = [] \<or> last pre = 47) \<and> 47 \<notin> set seg
        \<and> decodeURIComponent seg = Returned i)"
proof
  assume "isValidInviteLink URL link = Returned True"
  then obtain u i where u: "URL link = Returned u"
    and s: "startsWith (pathname u) (str ''/join/'')"
    and e: "extractPuzzleId URL link = Returned (Some i)"
    using isValidInviteLink_iff [of URL link] by blast
  from s obtain rest where r: "pathname u = str ''/join/'' @ rest"
    using startsWith_iff by blast
  obtain pre seg where d: "rest = pre @ seg" "pre = [] \<or> last pre = 47" "47 \<notin> set seg"
    using last_segment_exists by blast
  have p: "pathname u = (str ''/join/'' @ pre) @ seg" using r d(1) by simp
  have "last_part (split 47 (pathname u)) = seg"
    unfolding p by (rule last_part_split [OF d(3) join_prefix_last [OF d(2)]])
  with e u have "decodeURIComponent seg = Returned i"
    by (auto simp: extractPuzzleId_def Let_def split: js_result.splits)
  with u r d show "\<exists>u pre seg i. URL link = Returned u \<and> pathname u = str ''/join/'' @ pre @ seg
        \<and> (pre = [] \<or> last pre = 47) \<and> 47 \<notin> set seg
        \<and> decodeURIComponent seg = Returned i" by blast
next
  assume "\<exists>u pre seg i. URL link = Returned u \<and> pathname u = str ''/join/'' @ pre @ seg
        \<and> (pre = [] \<or> last pre = 47) \<and> 47 \<notin> set seg
        \<and> decodeURIComponent seg = Returned i"
  then obtain u pre seg i where u: "URL link = Returned u"
    and r: "pathname u = str ''/join/'' @ pre @ seg"
    and d: "pre = [] \<or> last pre = 47" "47 \<notin> set seg"
    and i: "decodeURIComponent seg = Returned i"
    by blast
  have p: "pathname u = (str ''/join/'' @ pre) @ seg" using r by simp
  have "extractPuzzleId URL link = Returned (Some i)"
    unfolding extractPuzzleId_iff using u p d i join_prefix_last [OF d(1)] by blast
  moreover have "startsWith (pathname u) (str ''/join/'')"
    unfolding startsWith_iff using r by blast
  ultimately show "isValidInviteLink URL link = Returned True"
    using u isValidInviteLink_iff [of URL link] by blast
qed

text \<open>
  Claim C8, as the code has it. Whatever the parser and the input, \<open>extractPuzzleId\<close>
  returns (it never throws), and it returns \<open>null\<close> when the input does not parse as a URL;
  it returns an id exactly when the input parses and the text after the last slash of the
  path is decoded by \<open>decodeURIComponent\<close> without an error, and the id is that decoded
  text. \<open>isValidInviteLink\<close> returns, and it returns true exactly when the input parses as a
  URL whose path is \<open>/join/\<close> followed by some text, and the part of that text after its
  last slash is decoded without an error. Nothing asks the decoded id to be non-empty.
\<close>

theorem invite_link_valid_iff_path:
  "(\<exists>r. extractPuzzleId URL link = Returned r)
   \<and> (URL link = Thrown e \<longrightarrow> extractPuzzleId URL link = Returned None)
   \<and> (extractPuzzleId URL link = Returned (Some i) \<longleftrightarrow>
        (\<exists>u pre seg. URL link = Returned u \<and> pathname u = pre @ seg
           \<and> (pre = [] \<or> last pre = 47) \<and> 47 \<notin> set seg
           \<and> decodeURIComponent seg = Returned i))
   \<and> (\<exists>b. isValidInviteLink URL link = Returned b)
   \<and> (isValidInviteLink URL link = Returned True \<longleftrightarrow>
        (\<exists>u pre seg i. URL link = Returned u \<and> pathname u = str ''/join/'' @ pre @ seg
           \<and> (pre = [] \<or> last pre = 47) \<and> 47 \<notin> set seg
           \<and> decodeURIComponent seg = Returned i))"
proof (intro conjI impI)
  show "\<exists>r. extractPuzzleId URL link = Returned r" by (rule extractPuzzleId_returns)
  show "\<exists>b. isValidInviteLink URL link = Returned b" by (rule isValidInviteLink_returns)
  show "extractPuzzleId URL link = Returned (Some i) \<longleftrightarrow>
        (\<exists>u pre seg. URL link = Returned u \<and> pathname u = pre @ seg
           \<and> (pre = [] \<or> last pre = 47) \<and> 47 \<notin> set seg
           \<and> decodeURIComponent seg = Returned i)"
    by (rule extractPuzzleId_iff)
  show "isValidInviteLink URL link = Returned True \<longleftrightarrow>
        (\<exists>u pre seg i. URL link = Returned u \<and> pathname u = str ''/join/'' @ pre @ seg
           \<and> (pre = [] \<or> last pre = 47) \<and> 47 \<notin> set seg
           \<and> decodeURIComponent seg = Returned i)"
    by (rule isValidInviteLink_path)
next
  assume "URL link = Thrown e"
  then show "extractPuzzleId URL link = Returned None" by (rule extractPuzzleId_malformed)
qed

text \<open>
  The link that ends at \<open>/join/\<close> carries no id: \<open>extractPuzzleId\<close> returns the empty
  string, which is not \<open>null\<close>, and \<open>isValidInviteLink\<close> returns true.
\<close>

theorem invite_link_empty_id_counterexample:
  "isValidInviteLink new_URL (str ''https://example.com/join/'') = Returned True
   \<and> extractPuzzleId new_URL (str ''https://example.com/join/'') = Returned (Some [])"
  by (simp add: url_defs char_defs)

text \<open>
  A well-formed link is valid and yields its id; a text that is no URL yields \<open>null\<close>; a
  link under another path, or one whose last segment has a broken escape, is not valid.
\<close>

theorem invite_link_valid_iff_path_witness:
  "new_URL (str ''not a link'') = Thrown TypeError
   \<and> extractPuzzleId new_URL (str ''not a link'') = Returned None
   \<and> isValidInviteLink new_URL (str ''https://example.com/join/abc123'') = Returned True
   \<and> extractPuzzleId new_URL (str ''https://example.com/join/abc123'')
       = Returned (Some (str ''abc123''))
   \<and> isValidInviteLink new_URL (str ''https://example.com/share/abc123'') = Returned False
   \<and> isValidInviteLink new_URL (str ''https://example.com/join/a%'') = Returned False"
proof -
  have a: "new_URL (str ''not a link'') = Thrown TypeError"
    by (simp add: url_defs char_defs)
  have b: "new_URL (str ''https://example.com/join/abc123'')
     = Returned \<lparr>protocol = str ''https:'', host = str ''example.com'',
         pathname = str ''/join/'' @ [] @ str ''abc123''\<rparr>"
    by (simp add: url_defs char_defs)
  have c: "47 \<notin> set (str ''abc123'')"
    "decodeURIComponent (str ''abc123'') = Returned (str ''abc123'')"
    by (simp_all add: url_defs char_defs)
  have d: "\<exists>u pre seg i. new_URL (str ''https://example.com/join/abc123'') = Returned u
      \<and> pathname u = str ''/join/'' @ pre @ seg
      \<and> (pre = [] \<or> last pre = 47) \<and> 47 \<notin> set seg
      \<and> decodeURIComponent seg = Returned i"
    using b c by (intro exI [of _ "[]"] exI [of _ "str ''abc123''"] exI) auto
  have d': "\<exists>u pre seg. new_URL (str ''https://example.com/join/abc123'') = Returned u
      \<and> pathname u = pre @ seg
      \<and> (pre = [] \<or> last pre = 47) \<and> 47 \<notin> set seg
      \<and> decodeURIComponent seg = Returned (str ''abc123'')"
    using b c by (intro exI [of _ "str ''/join/''"] exI [of _ "str ''abc123''"] exI)
      (auto simp: str_def)
  have e: "isValidInviteLink new_URL (str ''https://example.com/share/abc123'') = Returned False"
    "isValidInviteLink new_URL (str ''https://example.com/join/a%'') = Returned False"
    by (simp_all add: url_defs char_defs)
  from invite_link_valid_iff_path [of new_URL "str ''not a link''" TypeError]
    invite_link_valid_iff_path
      [of new_URL "str ''https://example.com/join/abc123''" TypeError "str ''abc123''"]
    a d d' e
  show ?thesis by blast
qed

subsection \<open>Decoding an encoded component\<close>



















subsection \<open>Parsing a generated link\<close>
























end
